theory Spec2Isabelle
  imports
    Complex_Main
    "HOL-Library.Word"
    "HOL-Library.Char_ord"
    "HOL-Library.List_Lexorder"
    "HOL-Library.Product_Lexorder"
begin

section \<open>Expense tracker (app.py): the ledger and its aggregation pipeline\<close>

text \<open>
  The program is one Streamlit script over pandas data frames. A script run is the
  sequence: session gate (lines 33-36), manual entry (63-77), upload (84-104), cleaning
  (107-118), the options of the two select boxes (126-135), filters (137-143), metrics
  (148-153) and the budget alert (161-169). Each of these blocks is embedded as one
  function below, under the name the source gives to the value it computes, and \<open>run\<close>
  puts them in sequence.

  Amounts are binary64 floating-point numbers, or 64-bit integers where pandas reads a
  column of whole numbers; both are embedded with their rounding and their wrap-around.
  Timestamps are the nanoseconds since the epoch that pandas stores. What pandas does
  inside a primitive whose code is not part of the repository (parsing text as a date or
  a number, reading a CSV file, rendering a number or a date as text, formatting a
  monthly period) is a field of the record \<open>pandas\<close>, a parameter of every function that
  calls it.
\<close>

subsection \<open>Binary64 arithmetic\<close>

text \<open>A float is a finite real, an infinity or the not-a-number. The sign of a zero is
  not recorded. \<open>round64\<close> rounds a real to the nearest binary64 value, ties to the even
  significand: the spacing of the values around \<open>x\<close> is \<open>ulp x\<close>, 52 binary digits below
  the leading one and never finer than \<open>2 ^ -1074\<close>; what rounds to \<open>2 ^ 1024\<close> or beyond
  is an infinity.\<close>

datatype f64 = Fin real | PInf | NInf | NaNf

definition pow2 :: "int \<Rightarrow> real" where
  "pow2 k = (if 0 \<le> k then 2 ^ nat k else 1 / 2 ^ nat (- k))"

definition expo :: "real \<Rightarrow> int" where
  "expo x = max \<lfloor>log 2 \<bar>x\<bar>\<rfloor> (- 1022)"

definition ulp :: "real \<Rightarrow> real" where
  "ulp x = pow2 (expo x - 52)"

definition rne :: "real \<Rightarrow> int" where
  "rne y =
     (let f = \<lfloor>y\<rfloor> in
      if y - of_int f < 1 / 2 then f
      else if 1 / 2 < y - of_int f then f + 1
      else if even f then f else f + 1)"

definition round64 :: "real \<Rightarrow> f64" where
  "round64 x =
     (if x = 0 then Fin 0
      else
        (let r = of_int (rne (x / ulp x)) * ulp x in
         if pow2 1024 \<le> \<bar>r\<bar> then (if 0 < x then PInf else NInf) else Fin r))"

fun f_add :: "f64 \<Rightarrow> f64 \<Rightarrow> f64" where
  "f_add (Fin a) (Fin b) = round64 (a + b)"
| "f_add NaNf y = NaNf"
| "f_add x NaNf = NaNf"
| "f_add PInf NInf = NaNf"
| "f_add NInf PInf = NaNf"
| "f_add PInf y = PInf"
| "f_add x PInf = PInf"
| "f_add NInf y = NInf"
| "f_add x NInf = NInf"

fun f_mul :: "f64 \<Rightarrow> f64 \<Rightarrow> f64" where
  "f_mul (Fin a) (Fin b) = round64 (a * b)"
| "f_mul NaNf y = NaNf"
| "f_mul x NaNf = NaNf"
| "f_mul (Fin a) PInf = (if a = 0 then NaNf else if 0 < a then PInf else NInf)"
| "f_mul (Fin a) NInf = (if a = 0 then NaNf else if 0 < a then NInf else PInf)"
| "f_mul PInf (Fin b) = (if b = 0 then NaNf else if 0 < b then PInf else NInf)"
| "f_mul NInf (Fin b) = (if b = 0 then NaNf else if 0 < b then NInf else PInf)"
| "f_mul PInf PInf = PInf"
| "f_mul NInf NInf = PInf"
| "f_mul PInf NInf = NInf"
| "f_mul NInf PInf = NInf"

text \<open>Division of numpy floats: a division by zero yields an infinity or the
  not-a-number (with a warning), not an exception.\<close>

fun f_div :: "f64 \<Rightarrow> f64 \<Rightarrow> f64" where
  "f_div (Fin a) (Fin b) =
     (if b = 0 then (if a = 0 then NaNf else if 0 < a then PInf else NInf)
      else round64 (a / b))"
| "f_div NaNf y = NaNf"
| "f_div x NaNf = NaNf"
| "f_div (Fin a) PInf = Fin 0"
| "f_div (Fin a) NInf = Fin 0"
| "f_div PInf (Fin b) = (if 0 \<le> b then PInf else NInf)"
| "f_div NInf (Fin b) = (if 0 \<le> b then NInf else PInf)"
| "f_div x y = NaNf"

text \<open>Comparisons: every comparison with the not-a-number is false.\<close>

fun f_le :: "f64 \<Rightarrow> f64 \<Rightarrow> bool" where
  "f_le (Fin a) (Fin b) = (a \<le> b)"
| "f_le NaNf y = False"
| "f_le x NaNf = False"
| "f_le NInf y = True"
| "f_le x PInf = True"
| "f_le x y = False"

fun f_less :: "f64 \<Rightarrow> f64 \<Rightarrow> bool" where
  "f_less (Fin a) (Fin b) = (a < b)"
| "f_less NaNf y = False"
| "f_less x NaNf = False"
| "f_less PInf y = False"
| "f_less x NInf = False"
| "f_less x y = True"

text \<open>A number as numpy returns it from a sum: a 64-bit integer or a float. An integer
  becomes a float by rounding.\<close>

datatype number = I "64 word" | F f64

fun as_float :: "number \<Rightarrow> f64" where
  "as_float (I w) = round64 (real_of_int (sint w))"
| "as_float (F x) = x"

fun number_less :: "number \<Rightarrow> number \<Rightarrow> bool" where
  "number_less (I a) (I b) = (sint a < sint b)"
| "number_less x y = f_less (as_float x) (as_float y)"

subsection \<open>Data frames\<close>

text \<open>A cell is the null marker (\<open>NaN\<close>, \<open>NaT\<close> or \<open>None\<close>), text, a float other than the
  not-a-number, a 64-bit integer or a timestamp. A row gives the cell of each column, and
  the null marker for every other name.\<close>

datatype cell = NaN | Str string | Num f64 | Int64 "64 word" | Ts int

type_synonym row = "string \<Rightarrow> cell"

record dataframe =
  columns :: "string list"
  rows :: "row list"

record csv =
  header :: "string list"
  body :: "string list list"

datatype halt =
    KeyError string
  | AttributeError string
  | ValueError string
  | TypeError string
  | StopScript

datatype message =
    Error_msg string
  | Warning_msg string
  | Success_msg string
  | Info_msg string

text \<open>\<open>idxmax_all_na\<close> is what \<open>Series.idxmax()\<close> does on a series whose values are
  all the not-a-number, which has changed between versions of pandas.\<close>

record pandas =
  read_csv :: "csv \<Rightarrow> dataframe"
  parse_datetime :: "string \<Rightarrow> int option"
  epoch_datetime :: "f64 \<Rightarrow> int option"
  parse_numeric :: "string \<Rightarrow> f64 option"
  render_num :: "f64 \<Rightarrow> string"
  render_int :: "int \<Rightarrow> string"
  render_ts :: "int \<Rightarrow> string"
  period_M :: "int \<Rightarrow> string"
  idxmax_all_na :: "halt + cell"

text \<open>\<open>df.empty\<close>: some axis of the frame has length 0.\<close>

definition empty_df :: "dataframe \<Rightarrow> bool" where
  "empty_df df = (rows df = [] \<or> columns df = [])"

text \<open>\<open>df[name]\<close>: the column as a list, or \<open>KeyError\<close>.\<close>

definition get_col :: "dataframe \<Rightarrow> string \<Rightarrow> halt + cell list" where
  "get_col df name =
     (if name \<in> set (columns df) then Inr (map (\<lambda>r. r name) (rows df))
      else Inl (KeyError name))"

text \<open>\<open>df[name] = values\<close>, one value computed from each row: an existing column is
  overwritten in place, a new one is added as the last column.\<close>

definition assign :: "dataframe \<Rightarrow> string \<Rightarrow> (row \<Rightarrow> cell) \<Rightarrow> dataframe" where
  "assign df name f =
     \<lparr>columns = (if name \<in> set (columns df) then columns df else columns df @ [name]),
      rows = map (\<lambda>r. r(name := f r)) (rows df)\<rparr>"

text \<open>\<open>pd.to_datetime(x, errors="coerce")\<close> and \<open>pd.to_numeric(x, errors="coerce")\<close> on
  one value: a value of the target type is kept, text is parsed, and what cannot be
  converted becomes the null marker. A number converts to the timestamp that many
  nanoseconds after the epoch, when there is one (the least 64-bit integer is the null
  timestamp), and a timestamp to its count of nanoseconds.\<close>

fun to_datetime :: "pandas \<Rightarrow> cell \<Rightarrow> cell" where
  "to_datetime P NaN = NaN"
| "to_datetime P (Ts t) = Ts t"
| "to_datetime P (Str s) = (case parse_datetime P s of Some t \<Rightarrow> Ts t | None \<Rightarrow> NaN)"
| "to_datetime P (Num x) = (case epoch_datetime P x of Some t \<Rightarrow> Ts t | None \<Rightarrow> NaN)"
| "to_datetime P (Int64 w) = (if sint w = - (2 ^ 63) then NaN else Ts (sint w))"

fun to_numeric :: "pandas \<Rightarrow> cell \<Rightarrow> cell" where
  "to_numeric P NaN = NaN"
| "to_numeric P (Num x) = Num x"
| "to_numeric P (Int64 w) = Int64 w"
| "to_numeric P (Str s) =
     (case parse_numeric P s of
        Some x \<Rightarrow> (if x = NaNf then NaN else Num x)
      | None \<Rightarrow> NaN)"
| "to_numeric P (Ts t) = Int64 (word_of_int t)"

text \<open>The two coercions of lines 27-28, 96-97 and 114-115:
  \<^verbatim>\<open>df["Date"] = pd.to_datetime(df["Date"], errors="coerce")\<close>,
  \<^verbatim>\<open>df["Amount"] = pd.to_numeric(df["Amount"], errors="coerce")\<close>.
  Reading a column the frame does not have raises \<open>KeyError\<close>.\<close>

definition coerce_types :: "pandas \<Rightarrow> dataframe \<Rightarrow> halt + dataframe" where
  "coerce_types P df =
     (if ''Date'' \<notin> set (columns df) then Inl (KeyError ''Date'')
      else if ''Amount'' \<notin> set (columns df) then Inl (KeyError ''Amount'')
      else Inr (assign (assign df ''Date'' (\<lambda>r. to_datetime P (r ''Date'')))
                  ''Amount'' (\<lambda>r. to_numeric P (r ''Amount''))))"

text \<open>\<^verbatim>\<open>df.dropna(subset=["Date", "Amount"])\<close>.\<close>

definition dropna :: "dataframe \<Rightarrow> halt + dataframe" where
  "dropna df =
     (if ''Date'' \<notin> set (columns df) then Inl (KeyError ''Date'')
      else if ''Amount'' \<notin> set (columns df) then Inl (KeyError ''Amount'')
      else Inr (df\<lparr>rows := filter (\<lambda>r. r ''Date'' \<noteq> NaN \<and> r ''Amount'' \<noteq> NaN) (rows df)\<rparr>))"

text \<open>Lines 96-99 and 114-116: coerce both columns, then drop the rows with a null.\<close>

definition normalize_df :: "pandas \<Rightarrow> dataframe \<Rightarrow> halt + dataframe" where
  "normalize_df P df = (case coerce_types P df of Inl e \<Rightarrow> Inl e | Inr d \<Rightarrow> dropna d)"

text \<open>\<open>DataFrame.to_csv(DATA_FILE, index=False)\<close>: the header is the list of columns, and
  every row gives one field for each column. A null is written as the empty field.\<close>

fun render_cell :: "pandas \<Rightarrow> cell \<Rightarrow> string" where
  "render_cell P NaN = []"
| "render_cell P (Str s) = s"
| "render_cell P (Num x) = render_num P x"
| "render_cell P (Int64 w) = render_int P (sint w)"
| "render_cell P (Ts t) = render_ts P t"

definition to_csv :: "pandas \<Rightarrow> dataframe \<Rightarrow> csv" where
  "to_csv P df =
     \<lparr>header = columns df,
      body = map (\<lambda>r. map (\<lambda>c. render_cell P (r c)) (columns df)) (rows df)\<rparr>"

text \<open>\<open>pd.DataFrame([d])\<close> for one dict \<open>d\<close>, given as its items in order: a frame of
  one row.\<close>

definition mk_row :: "(string \<times> cell) list \<Rightarrow> row" where
  "mk_row items = (\<lambda>c. case map_of items c of Some v \<Rightarrow> v | None \<Rightarrow> NaN)"

definition DataFrame :: "(string \<times> cell) list \<Rightarrow> dataframe" where
  "DataFrame items = \<lparr>columns = map fst items, rows = [mk_row items]\<rparr>"

text \<open>\<open>pd.concat([a, b], ignore_index=True)\<close>: the columns of \<open>a\<close>, then those of \<open>b\<close>
  that \<open>a\<close> does not have; the rows of \<open>a\<close>, then those of \<open>b\<close>, each null in the
  columns its own frame does not have. A column of the result that holds floats or nulls
  and neither text nor timestamps is a float column: its integers become floats.\<close>

definition align :: "string list \<Rightarrow> row \<Rightarrow> row" where
  "align cols r = (\<lambda>c. if c \<in> set cols then r c else NaN)"

fun is_float :: "cell \<Rightarrow> bool" where
  "is_float NaN = True"
| "is_float (Num x) = True"
| "is_float c = False"

fun is_object :: "cell \<Rightarrow> bool" where
  "is_object (Str s) = True"
| "is_object (Ts t) = True"
| "is_object c = False"

fun astype_float :: "cell \<Rightarrow> cell" where
  "astype_float (Int64 w) = Num (round64 (real_of_int (sint w)))"
| "astype_float c = c"

definition float_column :: "row list \<Rightarrow> string \<Rightarrow> bool" where
  "float_column rs c = (list_ex (\<lambda>r. is_float (r c)) rs \<and> list_all (\<lambda>r. \<not> is_object (r c)) rs)"

definition pd_concat :: "dataframe \<Rightarrow> dataframe \<Rightarrow> dataframe" where
  "pd_concat a b =
     (let rs = map (align (columns a)) (rows a) @ map (align (columns b)) (rows b)
      in \<lparr>columns = columns a @ filter (\<lambda>c. c \<notin> set (columns a)) (columns b),
          rows = map (\<lambda>r c. if float_column rs c then astype_float (r c) else r c) rs\<rparr>)"

subsection \<open>The ledger: session state, cache and file\<close>

text \<open>\<open>session_df\<close> is \<open>st.session_state.df\<close> (absent before the first run),
  \<open>cached\<close> the entry \<open>st.cache_data\<close> keeps for \<open>load_data\<close>, \<open>data_file\<close> the file
  \<open>expenses.csv\<close> (absent until written) and \<open>ui\<close> the messages shown so far. The texts of
  the messages are the source's without their leading pictograph.\<close>

record app_state =
  session_df :: "dataframe option"
  cached :: "dataframe option"
  data_file :: "csv option"
  ui :: "message list"

definition schema :: "string list" where
  "schema = [''Date'', ''Category'', ''Amount'', ''Description'']"

text \<open>Lines 15-30. The decorator returns the cached frame when there is one and runs the
  body otherwise; a run that raises caches nothing.\<close>

definition load_data :: "pandas \<Rightarrow> app_state \<Rightarrow> (halt + dataframe) \<times> app_state" where
  "load_data P s =
     (case cached s of
        Some df \<Rightarrow> (Inr df, s)
      | None \<Rightarrow>
          (case data_file s of
             None \<Rightarrow>
               (let df = \<lparr>columns = schema, rows = []\<rparr>
                in (Inr df, s\<lparr>cached := Some df, data_file := Some (to_csv P df)\<rparr>))
           | Some file \<Rightarrow>
               (case coerce_types P (read_csv P file) of
                  Inl e \<Rightarrow> (Inl e, s)
                | Inr df \<Rightarrow> (Inr df, s\<lparr>cached := Some df\<rparr>))))"

text \<open>Lines 33-36: \<open>load_data\<close> is called only when the session has no frame yet; the
  script then works on a copy of the session's frame.\<close>

definition init_session :: "pandas \<Rightarrow> app_state \<Rightarrow> (halt + dataframe) \<times> app_state" where
  "init_session P s =
     (case session_df s of
        Some df \<Rightarrow> (Inr df, s)
      | None \<Rightarrow>
          (case load_data P s of
             (Inl e, s') \<Rightarrow> (Inl e, s')
           | (Inr df, s') \<Rightarrow> (Inr df, s'\<lparr>session_df := Some df\<rparr>)))"

subsection \<open>Manual entry (lines 47-77)\<close>

text \<open>The values of the form. \<open>expense_date\<close> is a calendar date, counted in days since
  1970-01-01; \<open>pd.to_datetime\<close> turns it into the timestamp of its midnight. \<open>amount\<close> is
  the float of the number input.\<close>

record expense_form =
  expense_date :: int
  category :: string
  amount :: f64
  description :: string

definition categories :: "string list" where
  "categories = [''Food'', ''Travel'', ''Shopping'', ''Bills'', ''Entertainment'',
                 ''Education'', ''Other'']"

definition date_to_datetime :: "int \<Rightarrow> int" where
  "date_to_datetime d = d * 86400000000000"

definition new_row :: "expense_form \<Rightarrow> (string \<times> cell) list" where
  "new_row f =
     [(''Date'', Ts (date_to_datetime (expense_date f))),
      (''Category'', Str (category f)),
      (''Amount'', Num (amount f)),
      (''Description'', Str (description f))]"

text \<open>Lines 63-77, \<open>submitted\<close> being true.\<close>

definition add_expense :: "pandas \<Rightarrow> expense_form \<Rightarrow> app_state \<Rightarrow> (halt + unit) \<times> app_state" where
  "add_expense P f s =
     (case session_df s of
        None \<Rightarrow> (Inl (AttributeError ''df''), s)
      | Some df \<Rightarrow>
          (let df' = pd_concat df (DataFrame (new_row f))
           in (Inr (),
               s\<lparr>session_df := Some df',
                 data_file := Some (to_csv P df'),
                 ui := ui s @ [Success_msg ''Expense Added'']\<rparr>)))"

subsection \<open>Upload (lines 82-104)\<close>

definition required_cols :: "string set" where
  "required_cols = {''Date'', ''Category'', ''Amount''}"

text \<open>What the upload makes of the frame read from the file, lines 92-99.\<close>

definition temp_df :: "pandas \<Rightarrow> dataframe \<Rightarrow> halt + dataframe" where
  "temp_df P df =
     normalize_df P
       (if ''Description'' \<notin> set (columns df) then assign df ''Description'' (\<lambda>r. Str [])
        else df)"

text \<open>Lines 84-104. \<open>uploaded\<close> is the file in the uploader, if any. \<open>st.stop()\<close> ends
  the run.\<close>

definition upload_csv :: "pandas \<Rightarrow> csv option \<Rightarrow> app_state \<Rightarrow> (halt + unit) \<times> app_state" where
  "upload_csv P uploaded s =
     (case uploaded of
        None \<Rightarrow> (Inr (), s)
      | Some file \<Rightarrow>
          (let df = read_csv P file in
           if \<not> required_cols \<subseteq> set (columns df) then
             (Inl StopScript,
              s\<lparr>ui := ui s @ [Error_msg ''CSV must contain Date, Category, Amount columns'']\<rparr>)
           else
             (case temp_df P df of
                Inl e \<Rightarrow> (Inl e, s)
              | Inr t \<Rightarrow>
                  (Inr (),
                   s\<lparr>session_df := Some t,
                     data_file := Some (to_csv P t),
                     ui := ui s @ [Success_msg ''CSV Uploaded & Dashboard Updated'']\<rparr>))))"

subsection \<open>Cleaning, filters and metrics (lines 107-153)\<close>

text \<open>\<open>df["Date"].dt.to_period("M").astype(str)\<close> on one value.\<close>

fun month_of :: "pandas \<Rightarrow> cell \<Rightarrow> cell" where
  "month_of P (Ts t) = Str (period_M P t)"
| "month_of P c = Str ''NaT''"

text \<open>Lines 107-118: the frame the dashboard works on.\<close>

definition clean :: "pandas \<Rightarrow> app_state \<Rightarrow> (halt + dataframe) \<times> app_state" where
  "clean P s =
     (case session_df s of
        None \<Rightarrow> (Inl (AttributeError ''df''), s)
      | Some df \<Rightarrow>
          if empty_df df then
            (Inl StopScript, s\<lparr>ui := ui s @ [Info_msg ''No data available yet.'']\<rparr>)
          else
            (case normalize_df P df of
               Inl e \<Rightarrow> (Inl e, s)
             | Inr d \<Rightarrow> (Inr (assign d ''Month'' (\<lambda>r. month_of P (r ''Date''))), s)))"

text \<open>\<open>df[df[name] == v]\<close>: a null equals nothing.\<close>

definition select_eq :: "dataframe \<Rightarrow> string \<Rightarrow> cell \<Rightarrow> halt + dataframe" where
  "select_eq df name v =
     (if name \<in> set (columns df)
      then Inr (df\<lparr>rows := filter (\<lambda>r. r name \<noteq> NaN \<and> r name = v) (rows df)\<rparr>)
      else Inl (KeyError name))"

text \<open>Lines 137-143.\<close>

definition filtered_df :: "dataframe \<Rightarrow> cell \<Rightarrow> cell \<Rightarrow> halt + dataframe" where
  "filtered_df df selected_month selected_category =
     (case (if selected_month \<noteq> Str ''All'' then select_eq df ''Month'' selected_month
            else Inr df) of
        Inl e \<Rightarrow> Inl e
      | Inr d \<Rightarrow>
          (if selected_category \<noteq> Str ''All'' then select_eq d ''Category'' selected_category
           else Inr d))"

text \<open>\<open>Series.sum()\<close> skips the nulls and is 0 on no value. A column of 64-bit integers
  is summed in 64-bit integers, which wrap around; any other numeric column is summed in
  floats, each addition rounded. The additions are taken in the order of the rows;
  numpy and pandas group or compensate the additions of a longer column, which changes
  nothing where every addition is exact. The script sums \<open>Amount\<close> only after
  \<open>pd.to_numeric\<close>; summing a column that holds text or timestamps is reported as
  \<open>TypeError\<close> here.\<close>

fun numeric :: "cell \<Rightarrow> bool" where
  "numeric NaN = True"
| "numeric (Num x) = True"
| "numeric (Int64 w) = True"
| "numeric c = False"

fun is_int :: "cell \<Rightarrow> bool" where
  "is_int (Int64 w) = True"
| "is_int c = False"

fun int_of :: "cell \<Rightarrow> 64 word" where
  "int_of (Int64 w) = w"
| "int_of c = 0"

fun float_of :: "cell \<Rightarrow> f64" where
  "float_of (Num x) = x"
| "float_of (Int64 w) = round64 (real_of_int (sint w))"
| "float_of c = Fin 0"

definition sum_as :: "bool \<Rightarrow> cell list \<Rightarrow> number" where
  "sum_as int64 xs =
     (if int64 then I (sum_list (map int_of xs))
      else F (foldl f_add (Fin 0) (map float_of (filter (\<lambda>c. c \<noteq> NaN) xs))))"

definition series_sum :: "cell list \<Rightarrow> halt + number" where
  "series_sum xs =
     (if list_all numeric xs then Inr (sum_as (list_all is_int xs) xs)
      else Inl (TypeError ''sum''))"

text \<open>Line 148.\<close>

definition total_expense :: "dataframe \<Rightarrow> halt + number" where
  "total_expense fdf =
     (case get_col fdf ''Amount'' of Inl e \<Rightarrow> Inl e | Inr xs \<Rightarrow> series_sum xs)"

text \<open>\<open>df.groupby(by)[col].sum()\<close>: one entry for each value of column \<open>by\<close> other than
  null (rows with a null key belong to no group), in ascending order of the keys: numbers
  by value, text in lexicographic order of its characters. Each group is summed as the
  whole column would be, in integers or in floats. As for \<open>Series.sum()\<close>, a summed column
  that holds text or timestamps is reported as \<open>TypeError\<close>.\<close>

fun cat_key :: "cell \<Rightarrow> nat \<times> real \<times> string" where
  "cat_key NaN = (0, 0, [])"
| "cat_key (Num NaNf) = (0, 0, [])"
| "cat_key (Num NInf) = (1, 0, [])"
| "cat_key (Num (Fin x)) = (2, x, [])"
| "cat_key (Int64 w) = (2, real_of_int (sint w), [])"
| "cat_key (Num PInf) = (3, 0, [])"
| "cat_key (Str s) = (4, 0, s)"
| "cat_key (Ts t) = (5, real_of_int t, [])"

definition group_keys :: "dataframe \<Rightarrow> string \<Rightarrow> cell list" where
  "group_keys df by =
     sort_key cat_key (remdups (filter (\<lambda>k. k \<noteq> NaN) (map (\<lambda>r. r by) (rows df))))"

definition group_total :: "dataframe \<Rightarrow> string \<Rightarrow> string \<Rightarrow> cell \<Rightarrow> number" where
  "group_total df by col k =
     sum_as (list_all (\<lambda>r. is_int (r col)) (rows df))
       (map (\<lambda>r. r col) (filter (\<lambda>r. r by = k) (rows df)))"

definition groupby_sum :: "dataframe \<Rightarrow> string \<Rightarrow> string \<Rightarrow> halt + (cell \<times> number) list" where
  "groupby_sum df by col =
     (if by \<notin> set (columns df) then Inl (KeyError by)
      else if col \<notin> set (columns df) then Inl (KeyError col)
      else if \<not> list_all (\<lambda>r. numeric (r col)) (rows df) then Inl (TypeError ''sum'')
      else Inr (map (\<lambda>k. (k, group_total df by col k)) (group_keys df by)))"

text \<open>\<open>Series.idxmax()\<close>: the label of the first occurrence of the maximum, values that
  are the not-a-number left aside; it raises on a series without entries.\<close>

fun first_max :: "cell \<times> number \<Rightarrow> (cell \<times> number) list \<Rightarrow> cell \<times> number" where
  "first_max best [] = best"
| "first_max best (kv # kvs) =
     first_max (if number_less (snd best) (snd kv) then kv else best) kvs"

definition idxmax :: "pandas \<Rightarrow> (cell \<times> number) list \<Rightarrow> halt + cell" where
  "idxmax P kvs =
     (if kvs = [] then Inl (ValueError ''attempt to get argmax of an empty sequence'')
      else
        (case filter (\<lambda>kv. snd kv \<noteq> F NaNf) kvs of
           [] \<Rightarrow> idxmax_all_na P
         | kv # rest \<Rightarrow> Inr (fst (first_max kv rest))))"

text \<open>Lines 150-153.\<close>

definition top_category :: "pandas \<Rightarrow> dataframe \<Rightarrow> halt + cell" where
  "top_category P fdf =
     (if \<not> empty_df fdf then
        (case groupby_sum fdf ''Category'' ''Amount'' of
           Inl e \<Rightarrow> Inl e
         | Inr s \<Rightarrow> idxmax P s)
      else Inr (Str ''N/A''))"

text \<open>Line 177, the expression that line 151 evaluates too.\<close>

definition category_summary :: "dataframe \<Rightarrow> halt + (cell \<times> number) list" where
  "category_summary fdf = groupby_sum fdf ''Category'' ''Amount''"

subsection \<open>Budget alert (lines 161-169)\<close>

text \<open>\<open>spent\<close> is the value of \<open>total_expense\<close>, \<open>monthly_budget\<close> the float of the
  number input. Line 162 divides and multiplies in binary64.\<close>

definition usage :: "number \<Rightarrow> f64 \<Rightarrow> f64" where
  "usage spent monthly_budget = f_mul (f_div (as_float spent) monthly_budget) (Fin 100)"

definition budget_alert :: "number \<Rightarrow> f64 \<Rightarrow> message option" where
  "budget_alert spent monthly_budget =
     (if f_less (Fin 0) monthly_budget then
        (if f_le (Fin 100) (usage spent monthly_budget)
           then Some (Error_msg ''Budget Exceeded!'')
         else if f_le (Fin 80) (usage spent monthly_budget)
           then Some (Warning_msg ''Approaching Budget Limit'')
         else Some (Success_msg ''Budget Under Control''))
      else None)"

subsection \<open>The options of the select boxes (lines 126-135)\<close>

text \<open>\<open>sorted(df[name].unique())\<close>: Python orders text with text, numbers (the null is
  one) with numbers and timestamps with timestamps; comparing values of two of these
  kinds raises \<open>TypeError\<close>, which a sort of values of more than one kind cannot avoid.
  The order of the options is a matter of presentation and is not part of the model.\<close>

fun py_kind :: "cell \<Rightarrow> nat" where
  "py_kind (Str s) = 0"
| "py_kind (Ts t) = 2"
| "py_kind c = 1"

definition sorted_unique :: "dataframe \<Rightarrow> string \<Rightarrow> halt + unit" where
  "sorted_unique df name =
     (case get_col df name of
        Inl e \<Rightarrow> Inl e
      | Inr xs \<Rightarrow>
          (if list_all (\<lambda>x. list_all (\<lambda>y. py_kind x = py_kind y) xs) xs then Inr ()
           else Inl (TypeError ''<'')))"

subsection \<open>One run of the script\<close>

text \<open>Lines 107-143, cleaning, options and filters: the values of \<open>df\<close> and
  \<open>filtered_df\<close> after line 143, and the state the run has reached.\<close>

definition view :: "pandas \<Rightarrow> cell \<Rightarrow> cell \<Rightarrow> app_state
    \<Rightarrow> (halt + dataframe \<times> dataframe) \<times> app_state" where
  "view P selected_month selected_category s =
     (case clean P s of
        (Inl e, s') \<Rightarrow> (Inl e, s')
      | (Inr df, s') \<Rightarrow>
          (case sorted_unique df ''Month'' of
             Inl e \<Rightarrow> (Inl e, s')
           | Inr u \<Rightarrow>
               (case sorted_unique df ''Category'' of
                  Inl e \<Rightarrow> (Inl e, s')
                | Inr u \<Rightarrow>
                    (case filtered_df df selected_month selected_category of
                       Inl e \<Rightarrow> (Inl e, s')
                     | Inr fdf \<Rightarrow> (Inr (df, fdf), s')))))"

text \<open>What a run shows at lines 148-169. The charts, the table and the export that
  follow read \<open>filtered_df\<close> and change nothing.\<close>

record dashboard =
  shown :: dataframe
  total :: number
  top :: cell
  alert :: "message option"

text \<open>A whole run, lines 33-169: \<open>submitted\<close> is the form when its button was pressed,
  \<open>uploaded\<close> the file the uploader holds. An exception or \<open>st.stop()\<close> ends the run in
  the state reached.\<close>

definition run :: "pandas \<Rightarrow> expense_form option \<Rightarrow> csv option \<Rightarrow> f64 \<Rightarrow> cell \<Rightarrow> cell
    \<Rightarrow> app_state \<Rightarrow> (halt + dashboard) \<times> app_state" where
  "run P submitted uploaded monthly_budget selected_month selected_category s =
     (case init_session P s of
        (Inl e, s1) \<Rightarrow> (Inl e, s1)
      | (Inr df0, s1) \<Rightarrow>
          (case (case submitted of None \<Rightarrow> (Inr (), s1) | Some f \<Rightarrow> add_expense P f s1) of
             (Inl e, s2) \<Rightarrow> (Inl e, s2)
           | (Inr u, s2) \<Rightarrow>
               (case upload_csv P uploaded s2 of
                  (Inl e, s3) \<Rightarrow> (Inl e, s3)
                | (Inr u, s3) \<Rightarrow>
                    (case view P selected_month selected_category s3 of
                       (Inl e, s4) \<Rightarrow> (Inl e, s4)
                     | (Inr (df, fdf), s4) \<Rightarrow>
                         (case total_expense fdf of
                            Inl e \<Rightarrow> (Inl e, s4)
                          | Inr t \<Rightarrow>
                              (case top_category P fdf of
                                 Inl e \<Rightarrow> (Inl e, s4)
                               | Inr c \<Rightarrow>
                                   (Inr \<lparr>shown = fdf, total = t, top = c,
                                          alert = budget_alert t monthly_budget\<rparr>,
                                    s4)))))))"

subsection \<open>Notions used to state the properties\<close>

text \<open>What it is for the date and the amount of a row to parse, said from the parsers
  rather than from the coercions above: \<open>date_value\<close> and \<open>amount_value\<close> are the
  timestamp and the number a cell stands for, if any. A row parses when both exist;
  \<open>coerced\<close> is the row with both in place, and \<open>with_description\<close> the row after
  line 93.\<close>

definition date_value :: "pandas \<Rightarrow> cell \<Rightarrow> int option" where
  "date_value P c =
     (case c of
        Str s \<Rightarrow> parse_datetime P s
      | Ts t \<Rightarrow> Some t
      | Num x \<Rightarrow> epoch_datetime P x
      | Int64 w \<Rightarrow> (if sint w = - (2 ^ 63) then None else Some (sint w))
      | NaN \<Rightarrow> None)"

definition amount_value :: "pandas \<Rightarrow> cell \<Rightarrow> cell option" where
  "amount_value P c =
     (case c of
        Str s \<Rightarrow>
          (case parse_numeric P s of
             None \<Rightarrow> None
           | Some x \<Rightarrow> (if x = NaNf then None else Some (Num x)))
      | Num x \<Rightarrow> Some (Num x)
      | Int64 w \<Rightarrow> Some (Int64 w)
      | Ts t \<Rightarrow> Some (Int64 (word_of_int t))
      | NaN \<Rightarrow> None)"

definition parses :: "pandas \<Rightarrow> row \<Rightarrow> bool" where
  "parses P r = (date_value P (r ''Date'') \<noteq> None \<and> amount_value P (r ''Amount'') \<noteq> None)"

definition coerced :: "pandas \<Rightarrow> row \<Rightarrow> row" where
  "coerced P r =
     r(''Date'' := (case date_value P (r ''Date'') of Some t \<Rightarrow> Ts t | None \<Rightarrow> NaN),
       ''Amount'' := (case amount_value P (r ''Amount'') of Some a \<Rightarrow> a | None \<Rightarrow> NaN))"

definition with_description :: "dataframe \<Rightarrow> row \<Rightarrow> row" where
  "with_description df r =
     (if ''Description'' \<in> set (columns df) then r else r(''Description'' := Str []))"

text \<open>The column of a CSV file under a name of its header.\<close>

definition csv_column :: "csv \<Rightarrow> string \<Rightarrow> string list" where
  "csv_column f c =
     map (\<lambda>line. case map_of (zip (header f) line) c of Some x \<Rightarrow> x | None \<Rightarrow> []) (body f)"

text \<open>The real a number stands for, when it is finite; an amount that is a whole number,
  and its absolute value.\<close>

fun finite_number :: "number \<Rightarrow> bool" where
  "finite_number (I w) = True"
| "finite_number (F (Fin x)) = True"
| "finite_number n = False"

fun number_value :: "number \<Rightarrow> real" where
  "number_value (I w) = real_of_int (sint w)"
| "number_value (F (Fin x)) = x"
| "number_value n = 0"

fun whole :: "cell \<Rightarrow> bool" where
  "whole (Int64 w) = True"
| "whole (Num (Fin x)) = (x = real_of_int \<lfloor>x\<rfloor>)"
| "whole c = False"

fun magnitude :: "cell \<Rightarrow> real" where
  "magnitude (Int64 w) = \<bar>real_of_int (sint w)\<bar>"
| "magnitude (Num (Fin x)) = \<bar>x\<bar>"
| "magnitude c = 0"

text \<open>
  The table of a frame, row by row over its columns, and the real a whole amount stands
  for.
\<close>

definition cells :: "dataframe \<Rightarrow> cell list list" where
  "cells df = map (\<lambda>r. map r (columns df)) (rows df)"

fun cell_value :: "cell \<Rightarrow> real" where
  "cell_value (Int64 w) = real_of_int (sint w)"
| "cell_value (Num (Fin x)) = x"
| "cell_value c = 0"

subsection \<open>Sample data\<close>

text \<open>
  A concrete instance of the pandas primitives for the examples below. Of a CSV file it
  reads a column whose fields are all numerals as 64-bit integers, a column of numerals
  and empty fields as floats and nulls, and any other column as text, empty fields as
  nulls, which is what \<open>pd.read_csv\<close> infers; the numerals it knows are those of the
  sample files. The only date it parses is 2024-01-01, whose midnight is 1704067200
  seconds after the epoch. It renders floats as Python does (\<open>100.0\<close>) and raises on an
  \<open>idxmax\<close> over nothing but the not-a-number.
\<close>

definition sample_int :: "string \<Rightarrow> int option" where
  "sample_int s = (if s = ''100'' then Some 100 else if s = ''50'' then Some 50 else None)"

definition sample_cell :: "csv \<Rightarrow> string \<Rightarrow> string \<Rightarrow> cell" where
  "sample_cell f c x =
     (if list_all (\<lambda>y. sample_int y \<noteq> None) (csv_column f c) then
        (case sample_int x of Some n \<Rightarrow> Int64 (word_of_int n) | None \<Rightarrow> NaN)
      else if list_all (\<lambda>y. y = [] \<or> sample_int y \<noteq> None) (csv_column f c) then
        (case sample_int x of Some n \<Rightarrow> Num (Fin (real_of_int n)) | None \<Rightarrow> NaN)
      else if x = [] then NaN else Str x)"

definition sample_read_csv :: "csv \<Rightarrow> dataframe" where
  "sample_read_csv f =
     \<lparr>columns = header f,
      rows = map (\<lambda>line. mk_row (map (\<lambda>(c, x). (c, sample_cell f c x)) (zip (header f) line)))
               (body f)\<rparr>"

definition sample_pandas :: pandas where
  "sample_pandas =
     \<lparr>read_csv = sample_read_csv,
      parse_datetime = (\<lambda>s. if s = ''2024-01-01'' then Some 1704067200000000000 else None),
      epoch_datetime = (\<lambda>x. case x of Fin r \<Rightarrow> Some \<lfloor>r\<rfloor> | _ \<Rightarrow> None),
      parse_numeric = (\<lambda>s. map_option (\<lambda>n. Fin (real_of_int n)) (sample_int s)),
      render_num = (\<lambda>x. if x = Fin 100 then ''100.0'' else if x = Fin 50 then ''50.0'' else ''nan''),
      render_int = (\<lambda>n. if n = 100 then ''100'' else if n = 50 then ''50'' else ''0''),
      render_ts = (\<lambda>t. if t = 1704067200000000000 then ''2024-01-01'' else ''1970-01-01''),
      period_M = (\<lambda>t. if t = 1704067200000000000 then ''2024-01'' else ''1970-01''),
      idxmax_all_na = Inl (ValueError ''Encountered all NA values'')\<rparr>"

text \<open>
  The file of the specification's example and the frame \<open>pd.read_csv\<close> makes of it; a
  file whose second row has an amount that is no number, so that the column is read as
  text.
\<close>

definition example_file :: csv where
  "example_file =
     \<lparr>header = [''Date'', ''Category'', ''Amount''],
      body = [[''2024-01-01'', ''Food'', ''100''], [''not-a-date'', ''Food'', ''50'']]\<rparr>"

definition example_frame :: dataframe where
  "example_frame =
     \<lparr>columns = [''Date'', ''Category'', ''Amount''],
      rows = [mk_row [(''Date'', Str ''2024-01-01''), (''Category'', Str ''Food''),
                      (''Amount'', Int64 100)],
              mk_row [(''Date'', Str ''not-a-date''), (''Category'', Str ''Food''),
                      (''Amount'', Int64 50)]]\<rparr>"

definition mixed_file :: csv where
  "mixed_file =
     \<lparr>header = [''Date'', ''Category'', ''Amount''],
      body = [[''2024-01-01'', ''Food'', ''100''], [''2024-01-01'', ''Food'', ''abc'']]\<rparr>"

definition mixed_frame :: dataframe where
  "mixed_frame =
     \<lparr>columns = [''Date'', ''Category'', ''Amount''],
      rows = [mk_row [(''Date'', Str ''2024-01-01''), (''Category'', Str ''Food''),
                      (''Amount'', Str ''100'')],
              mk_row [(''Date'', Str ''2024-01-01''), (''Category'', Str ''Food''),
                      (''Amount'', Str ''abc'')]]\<rparr>"

text \<open>
  A session that already holds one record, in memory and on disk.
\<close>

definition prior_ledger :: dataframe where
  "prior_ledger =
     \<lparr>columns = schema,
      rows = [mk_row [(''Date'', Ts 0), (''Category'', Str ''Bills''), (''Amount'', Num (Fin 50)),
                      (''Description'', Str ''rent'')]]\<rparr>"

definition prior_state :: app_state where
  "prior_state =
     \<lparr>session_df = Some prior_ledger, cached = Some prior_ledger,
      data_file = Some (to_csv sample_pandas prior_ledger), ui = []\<rparr>"

text \<open>
  Upload files: one without the column \<open>Amount\<close>, one whose only row has no date, one
  with a column outside the schema, and one whose only row has an empty category.
\<close>

definition file_without_amount :: csv where
  "file_without_amount = \<lparr>header = [''Date'', ''Category''], body = [[''2024-01-01'', ''Food'']]\<rparr>"

definition unparsed_file :: csv where
  "unparsed_file =
     \<lparr>header = [''Date'', ''Category'', ''Amount''], body = [[''not-a-date'', ''Food'', ''50'']]\<rparr>"

definition annotated_file :: csv where
  "annotated_file =
     \<lparr>header = [''Date'', ''Category'', ''Amount'', ''Note''],
      body = [[''2024-01-01'', ''Food'', ''100'', ''cash'']]\<rparr>"

definition uncategorised_file :: csv where
  "uncategorised_file =
     \<lparr>header = [''Date'', ''Category'', ''Amount''], body = [[''2024-01-01'', [], ''100'']]\<rparr>"

text \<open>
  The ledger the last file yields, and the frame the dashboard derives from it.
\<close>

definition uncategorised :: dataframe where
  "uncategorised =
     \<lparr>columns = schema,
      rows = [mk_row [(''Date'', Ts 1704067200000000000), (''Category'', NaN),
                      (''Amount'', Int64 100), (''Description'', Str [])]]\<rparr>"

definition uncategorised_view :: dataframe where
  "uncategorised_view =
     \<lparr>columns = schema @ [''Month''],
      rows = [mk_row [(''Date'', Ts 1704067200000000000), (''Category'', NaN),
                      (''Amount'', Int64 100), (''Description'', Str []),
                      (''Month'', Str ''2024-01'')]]\<rparr>"

text \<open>
  A data file, found at start-up, whose only row has no date; the frame \<open>load_data\<close>
  returns for it.
\<close>

definition stale_file :: csv where
  "stale_file =
     \<lparr>header = schema, body = [[''not-a-date'', ''Food'', ''50'', ''lunch'']]\<rparr>"

definition unloaded_state :: app_state where
  "unloaded_state = \<lparr>session_df = None, cached = None, data_file = Some stale_file, ui = []\<rparr>"

definition loaded_ledger :: dataframe where
  "loaded_ledger =
     \<lparr>columns = schema,
      rows = [mk_row [(''Date'', NaN), (''Category'', Str ''Food''), (''Amount'', Int64 50),
                      (''Description'', Str ''lunch'')]]\<rparr>"

text \<open>
  A form; a ledger where two categories have the same total; a ledger of three amounts
  that binary64 cannot represent: 0.1 (Food), 0.1 (Travel) and 0.4 (Food), each rounded.
\<close>

definition lunch :: expense_form where
  "lunch = \<lparr>expense_date = 19723, category = ''Food'', amount = Fin 100, description = ''lunch''\<rparr>"

definition tied :: dataframe where
  "tied =
     \<lparr>columns = schema,
      rows = [mk_row [(''Date'', Ts 1704067200000000000), (''Category'', Str ''Travel''),
                      (''Amount'', Num (Fin 100)), (''Description'', Str [])],
              mk_row [(''Date'', Ts 1704067200000000000), (''Category'', Str ''Food''),
                      (''Amount'', Num (Fin 60)), (''Description'', Str [])],
              mk_row [(''Date'', Ts 1704067200000000000), (''Category'', Str ''Food''),
                      (''Amount'', Num (Fin 40)), (''Description'', Str [])]]\<rparr>"

definition tied_state :: app_state where
  "tied_state = \<lparr>session_df = Some tied, cached = None, data_file = Some (to_csv sample_pandas tied), ui = []\<rparr>"

definition dimes :: dataframe where
  "dimes =
     \<lparr>columns = schema,
      rows = [mk_row [(''Date'', Ts 1704067200000000000), (''Category'', Str ''Food''),
                      (''Amount'', Num (round64 (1 / 10))), (''Description'', Str [])],
              mk_row [(''Date'', Ts 1704067200000000000), (''Category'', Str ''Travel''),
                      (''Amount'', Num (round64 (1 / 10))), (''Description'', Str [])],
              mk_row [(''Date'', Ts 1704067200000000000), (''Category'', Str ''Food''),
                      (''Amount'', Num (round64 (4 / 10))), (''Description'', Str [])]]\<rparr>"

section \<open>Properties\<close>

subsection \<open>Rounding\<close>

text \<open>
  How \<open>round64\<close> evaluates: at a real within half a spacing of a binary64 value, at a
  tie, and at a whole number of magnitude up to \<open>2 ^ 53\<close>, which it leaves as it is.
\<close>

lemma pow2_powr: "pow2 k = 2 powr (of_int k)"
  by (auto simp: pow2_def powr_realpow [symmetric] powr_minus divide_simps)

lemma pow2_pos: "0 < pow2 k"
  by (simp add: pow2_powr)

lemma pow2_add: "pow2 (a + b) = pow2 a * pow2 b"
  by (simp add: pow2_powr powr_add)

lemma pow2_le_iff: "pow2 a \<le> pow2 b \<longleftrightarrow> a \<le> b"
  by (simp add: pow2_powr)

lemma pow2_less_iff: "pow2 a < pow2 b \<longleftrightarrow> a < b"
  by (simp add: pow2_powr)

lemma rne_of_int: "rne (of_int k) = k"
  by (simp add: rne_def)

lemma rne_near:
  assumes "\<bar>y - of_int k\<bar> < 1 / 2"
  shows "rne y = k"
proof (cases "of_int k \<le> y")
  case True
  with assms have "y < of_int k + 1" by linarith
  with True have f: "\<lfloor>y\<rfloor> = k" by (simp add: floor_eq_iff)
  from True assms have "y - of_int k < 1 / 2" by linarith
  with f show ?thesis by (simp add: rne_def)
next
  case False
  with assms have "of_int (k - 1) \<le> y" "y < of_int (k - 1) + 1" by simp_all
  then have f: "\<lfloor>y\<rfloor> = k - 1" by (simp only: floor_eq_iff)
  from False assms have "1 / 2 < y - of_int (k - 1)" by simp
  with f show ?thesis by (simp add: rne_def)
qed

lemma expo_eq:
  assumes "pow2 e \<le> \<bar>x\<bar>" "\<bar>x\<bar> < pow2 (e + 1)" "- 1022 \<le> e"
  shows "expo x = e"
proof -
  have "0 < \<bar>x\<bar>" using assms(1) pow2_pos [of e] by linarith
  then have "\<lfloor>log 2 \<bar>x\<bar>\<rfloor> = e"
    using assms(1,2) by (simp add: floor_log_eq_powr_iff pow2_powr)
  with assms(3) show ?thesis by (simp add: expo_def)
qed

lemma round64_near:
  assumes "x \<noteq> 0" "expo x = e" "\<bar>x / pow2 (e - 52) - of_int k\<bar> < 1 / 2"
    and "\<bar>of_int k * pow2 (e - 52)\<bar> < pow2 1024"
  shows "round64 x = Fin (of_int k * pow2 (e - 52))"
  using assms by (simp add: round64_def ulp_def rne_near Let_def)

lemma round64_at:
  assumes "pow2 e \<le> \<bar>x\<bar>" "\<bar>x\<bar> < pow2 (e + 1)" "- 1022 \<le> e" "e \<le> 1022"
    and "\<bar>x / pow2 (e - 52) - of_int k\<bar> < 1 / 2"
  shows "round64 x = Fin (of_int k * pow2 (e - 52))"
proof -
  let ?u = "pow2 (e - 52)"
  have u: "0 < ?u" by (rule pow2_pos)
  have x0: "x \<noteq> 0" using assms(1) pow2_pos [of e] by auto
  have ex: "expo x = e" by (rule expo_eq [OF assms(1,2,3)])
  have "\<bar>x / ?u - of_int k\<bar> * ?u < 1 / 2 * ?u"
    using assms(5) u by (simp only: mult_less_cancel_right_pos)
  moreover have "\<bar>x / ?u - of_int k\<bar> * ?u = \<bar>x - of_int k * ?u\<bar>"
    using u by (simp add: abs_mult [symmetric] field_simps del: abs_mult)
  ultimately have d: "\<bar>x - of_int k * ?u\<bar> < ?u / 2" by simp
  have "?u \<le> pow2 (e + 1)" by (simp add: pow2_le_iff)
  with d assms(2) have "\<bar>of_int k * ?u\<bar> < pow2 (e + 1) + pow2 (e + 1)"
    using u by linarith
  also have "\<dots> = pow2 (e + 2)"
  proof -
    have "pow2 1 = 2" by (simp add: pow2_def)
    with pow2_add [of "e + 1" 1] show ?thesis by (simp add: add.commute)
  qed
  also have "\<dots> \<le> pow2 1024" using assms(4) by (simp add: pow2_le_iff)
  finally have "\<bar>of_int k * ?u\<bar> < pow2 1024" .
  from round64_near [OF x0 ex assms(5) this] show ?thesis .
qed

lemma round64_tie:
  assumes "pow2 e \<le> \<bar>x\<bar>" "\<bar>x\<bar> < pow2 (e + 1)" "- 1022 \<le> e" "e \<le> 1021"
    and "x / pow2 (e - 52) = of_int k + 1 / 2"
  shows "round64 x = Fin (of_int (if even k then k else k + 1) * pow2 (e - 52))"
proof -
  let ?u = "pow2 (e - 52)"
  let ?n = "if even k then k else k + 1"
  have u: "0 < ?u" by (rule pow2_pos)
  have x0: "x \<noteq> 0" using assms(1) pow2_pos [of e] by auto
  have ex: "expo x = e" by (rule expo_eq [OF assms(1,2,3)])
  have f: "\<lfloor>of_int k + 1 / 2 :: real\<rfloor> = k" by (simp add: floor_eq_iff)
  have n: "rne (x / ?u) = ?n"
    unfolding assms(5) by (simp add: rne_def f)
  have "x = (of_int k + 1 / 2) * ?u" using assms(5) u by (simp add: field_simps)
  then have "\<bar>of_int ?n * ?u - x\<bar> \<le> ?u"
    using u by (auto simp: algebra_simps abs_le_iff)
  moreover have "?u \<le> pow2 (e + 1)" by (simp add: pow2_le_iff)
  ultimately have "\<bar>of_int ?n * ?u\<bar> < pow2 (e + 1) + pow2 (e + 1)"
    using assms(2) by linarith
  also have "\<dots> = pow2 (e + 2)"
  proof -
    have "pow2 1 = 2" by (simp add: pow2_def)
    with pow2_add [of "e + 1" 1] show ?thesis by (simp add: add.commute)
  qed
  also have "\<dots> \<le> pow2 1024" using assms(4) by (simp add: pow2_le_iff)
  finally have "\<bar>of_int ?n * ?u\<bar> < pow2 1024" .
  with x0 ex n show ?thesis by (simp add: round64_def ulp_def Let_def)
qed

lemma round64_exact:
  assumes "x \<noteq> 0" "x / ulp x = of_int k" "\<bar>x\<bar> < pow2 1024"
  shows "round64 x = Fin x"
proof -
  have "0 < ulp x" by (simp add: ulp_def pow2_pos)
  with assms(2) have "of_int k * ulp x = x" by (simp add: field_simps)
  with assms show ?thesis by (simp add: round64_def rne_of_int Let_def)
qed

lemma round64_int:
  assumes "\<bar>n\<bar> \<le> 2 ^ 53"
  shows "round64 (of_int n) = Fin (of_int n)"
proof (cases "n = 0")
  case True
  then show ?thesis by (simp add: round64_def)
next
  case False
  let ?x = "of_int n :: real"
  define e where "e = \<lfloor>log 2 \<bar>?x\<bar>\<rfloor>"
  have n1: "1 \<le> \<bar>?x\<bar>"
  proof -
    have "1 \<le> \<bar>n\<bar>" using False by simp
    then have "(of_int 1 :: real) \<le> of_int \<bar>n\<bar>" by (simp only: of_int_le_iff)
    then show ?thesis by simp
  qed
  have n53: "\<bar>?x\<bar> \<le> pow2 53"
  proof -
    have "(of_int \<bar>n\<bar> :: real) \<le> of_int (2 ^ 53)" using assms by (simp only: of_int_le_iff)
    then show ?thesis by (simp add: pow2_def)
  qed
  have pos: "0 < \<bar>?x\<bar>" using n1 by linarith
  have b: "pow2 e \<le> \<bar>?x\<bar>" "\<bar>?x\<bar> < pow2 (e + 1)"
    using floor_log_eq_powr_iff [OF pos, of 2 e] by (simp_all add: e_def pow2_powr)
  have "pow2 0 \<le> \<bar>?x\<bar>" using n1 by (simp add: pow2_def)
  with b(2) have "pow2 0 < pow2 (e + 1)" by linarith
  then have e0: "0 \<le> e" by (simp only: pow2_less_iff)
  from b(1) n53 have "pow2 e \<le> pow2 53" by linarith
  then have e53: "e \<le> 53" by (simp only: pow2_le_iff)
  have ex: "expo ?x = e" using e0 by (simp add: expo_def e_def)
  have "\<exists>k::int. ?x / pow2 (e - 52) = (of_int k :: real)"
  proof (cases "e \<le> 52")
    case True
    then have "pow2 (e - 52) = 1 / 2 ^ nat (52 - e)"
      by (cases "e = 52") (simp_all add: pow2_def)
    then have "?x / pow2 (e - 52) = (of_int (n * 2 ^ nat (52 - e)) :: real)"
      by simp
    then show ?thesis by blast
  next
    case False
    with e53 have e: "e = 53" by simp
    from b(1) n53 have "\<bar>?x\<bar> = pow2 53" unfolding e by linarith
    then have "\<bar>?x\<bar> = of_int (2 ^ 53)" by (simp add: pow2_def)
    then have "(of_int \<bar>n\<bar> :: real) = of_int (2 ^ 53)" by simp
    then have "\<bar>n\<bar> = 2 ^ 53" by (simp only: of_int_eq_iff)
    then have "n = 2 ^ 53 \<or> n = - (2 ^ 53)" by linarith
    then have "?x / pow2 (e - 52) = (of_int (n div 2) :: real)"
      unfolding e by (auto simp: pow2_def)
    then show ?thesis by blast
  qed
  then obtain k :: int where k: "?x / ulp ?x = (of_int k :: real)"
    unfolding ulp_def ex by blast
  have "pow2 53 < pow2 1024" by (simp only: pow2_less_iff)
  with n53 have l: "\<bar>?x\<bar> < pow2 1024" by linarith
  have "?x \<noteq> 0" using False by simp
  from round64_exact [OF this k l] show ?thesis .
qed

lemma round64_whole:
  assumes "x = real_of_int \<lfloor>x\<rfloor>" "\<bar>x\<bar> \<le> 2 ^ 53"
  shows "round64 x = Fin x"
proof -
  have "\<bar>real_of_int \<lfloor>x\<rfloor>\<bar> \<le> real_of_int (2 ^ 53)" using assms by simp
  then have "real_of_int \<bar>\<lfloor>x\<rfloor>\<bar> \<le> real_of_int (2 ^ 53)" by simp
  then have "\<bar>\<lfloor>x\<rfloor>\<bar> \<le> 2 ^ 53" by (simp only: of_int_le_iff)
  from round64_int [OF this] assms(1) show ?thesis by simp
qed

lemma round64_numeral [simp]: "round64 1 = Fin 1" "round64 2 = Fin 2" "round64 50 = Fin 50"
  "round64 80 = Fin 80" "round64 100 = Fin 100" "round64 200 = Fin 200"
  "round64 800 = Fin 800" "round64 1000 = Fin 1000" "round64 500 = Fin 500"
  "round64 2000 = Fin 2000"
  using round64_int [of 500] round64_int [of 2000] round64_int [of 1] round64_int [of 2] round64_int [of 50] round64_int [of 80]
    round64_int [of 100] round64_int [of 200] round64_int [of 800] round64_int [of 1000]
  by simp_all

lemma round64_more [simp]: "round64 40 = Fin 40" "round64 60 = Fin 60" "round64 160 = Fin 160"
  using round64_int [of 40] round64_int [of 60] round64_int [of 160] by simp_all

lemma f_less_not_le: "f_less u v \<Longrightarrow> \<not> f_le v u"
  by (cases u; cases v) auto

lemma f_le_not_less: "f_le u v \<Longrightarrow> \<not> f_less v u"
  by (cases u; cases v) auto

subsection \<open>Budget alert\<close>

lemma round64_half: "round64 (1 / 2) = Fin (1 / 2)"
  using round64_at [of "-1" "1 / 2" "2 ^ 52"] by (simp add: pow2_def)

lemma round64_four_fifths: "round64 (4 / 5) = Fin (7205759403792794 / 2 ^ 53)"
  using round64_at [of "-1" "4 / 5" 7205759403792794] by (simp add: pow2_def)

lemma round64_eighty: "round64 (7205759403792794 / 2 ^ 53 * 100) = Fin 80"
  using round64_at [of 6 "7205759403792794 / 2 ^ 53 * 100" 5629499534213120]
  by (simp add: pow2_def)

lemma round64_six_fifths: "round64 (12 / 10) = Fin (5404319552844595 / 2 ^ 52)"
  using round64_at [of 0 "12 / 10" 5404319552844595] by (simp add: pow2_def)

lemma round64_three_halves: "round64 (15 / 10) = Fin (3 / 2)"
  using round64_at [of 0 "15 / 10" 6755399441055744] by (simp add: pow2_def)

lemma round64_quotient:
  "round64 (5404319552844595 / 2 ^ 52 / (3 / 2)) = Fin (7205759403792793 / 2 ^ 53)"
  using round64_at [of "-1" "5404319552844595 / 2 ^ 52 / (3 / 2)" 7205759403792793]
  by (simp add: pow2_def)

lemma round64_eighty_below: "round64 (7205759403792793 / 2 ^ 53 * 100) = Fin 80"
  using round64_at [of 6 "7205759403792793 / 2 ^ 53 * 100" 5629499534213120]
  by (simp add: pow2_def)

lemma usage_800: "usage (F (Fin 800)) (Fin 1000) = Fin 80"
  using round64_four_fifths round64_eighty by (simp add: usage_def)

lemma usage_1000: "usage (F (Fin 1000)) (Fin 1000) = Fin 100"
  by (simp add: usage_def)

text \<open>
  C5. The budget alert is computed only for a positive budget: with a budget of zero or
  less there is no alert. For a positive budget the usage is total / budget * 100, computed
  in binary64, and the alert is "exceeded" from 100 upwards, "approaching" from 80
  (included) to 100 (excluded), and "under control" below 80. In particular 800 of 1000
  is a usage of 80 and approaching, 1000 of 1000 is a usage of 100 and exceeded.
\<close>

theorem budget_bands:
  "(f_le b (Fin 0) \<longrightarrow> budget_alert t b = None)
   \<and> (f_less (Fin 0) b \<longrightarrow> usage t b = f_mul (f_div (as_float t) b) (Fin 100))
   \<and> (f_less (Fin 0) b \<and> f_le (Fin 100) (usage t b)
        \<longrightarrow> budget_alert t b = Some (Error_msg ''Budget Exceeded!''))
   \<and> (f_less (Fin 0) b \<and> f_le (Fin 80) (usage t b) \<and> f_less (usage t b) (Fin 100)
        \<longrightarrow> budget_alert t b = Some (Warning_msg ''Approaching Budget Limit''))
   \<and> (f_less (Fin 0) b \<and> f_less (usage t b) (Fin 80)
        \<longrightarrow> budget_alert t b = Some (Success_msg ''Budget Under Control''))
   \<and> usage (F (Fin 800)) (Fin 1000) = Fin 80
   \<and> budget_alert (F (Fin 800)) (Fin 1000) = Some (Warning_msg ''Approaching Budget Limit'')
   \<and> usage (F (Fin 1000)) (Fin 1000) = Fin 100
   \<and> budget_alert (F (Fin 1000)) (Fin 1000) = Some (Error_msg ''Budget Exceeded!'')"
proof (intro conjI impI)
  assume "f_le b (Fin 0)"
  then have "\<not> f_less (Fin 0) b" by (rule f_le_not_less)
  then show "budget_alert t b = None" by (simp add: budget_alert_def)
next
  show "usage t b = f_mul (f_div (as_float t) b) (Fin 100)" by (simp add: usage_def)
next
  assume "f_less (Fin 0) b \<and> f_le (Fin 100) (usage t b)"
  then show "budget_alert t b = Some (Error_msg ''Budget Exceeded!'')"
    by (simp add: budget_alert_def)
next
  assume a: "f_less (Fin 0) b \<and> f_le (Fin 80) (usage t b) \<and> f_less (usage t b) (Fin 100)"
  then have "\<not> f_le (Fin 100) (usage t b)" by (simp add: f_less_not_le)
  with a show "budget_alert t b = Some (Warning_msg ''Approaching Budget Limit'')"
    by (simp add: budget_alert_def)
next
  assume a: "f_less (Fin 0) b \<and> f_less (usage t b) (Fin 80)"
  then have n: "\<not> f_le (Fin 80) (usage t b)" by (simp add: f_less_not_le)
  have "\<not> f_le (Fin 100) (usage t b)"
    using n by (cases "usage t b") auto
  with a n show "budget_alert t b = Some (Success_msg ''Budget Under Control'')"
    by (simp add: budget_alert_def)
next
  show "usage (F (Fin 800)) (Fin 1000) = Fin 80" by (rule usage_800)
next
  show "budget_alert (F (Fin 800)) (Fin 1000) = Some (Warning_msg ''Approaching Budget Limit'')"
    by (simp add: budget_alert_def usage_800)
next
  show "usage (F (Fin 1000)) (Fin 1000) = Fin 100" by (rule usage_1000)
next
  show "budget_alert (F (Fin 1000)) (Fin 1000) = Some (Error_msg ''Budget Exceeded!'')"
    by (simp add: budget_alert_def usage_1000)
qed

theorem budget_bands_witness:
  "f_le (Fin 0) (Fin 0) \<and> budget_alert (I 500) (Fin 0) = None
   \<and> f_less (Fin 0) (Fin 1000)
   \<and> usage (I 2000) (Fin 1000) = Fin 200
   \<and> budget_alert (I 2000) (Fin 1000) = Some (Error_msg ''Budget Exceeded!'')
   \<and> usage (F (round64 (12 / 10))) (round64 (15 / 10)) = Fin 80
   \<and> budget_alert (F (round64 (12 / 10))) (round64 (15 / 10))
       = Some (Warning_msg ''Approaching Budget Limit'')
   \<and> usage (I 500) (Fin 1000) = Fin 50
   \<and> budget_alert (I 500) (Fin 1000) = Some (Success_msg ''Budget Under Control'')"
proof -
  have i: "as_float (I 2000) = Fin 2000" "as_float (I 500) = Fin 500"
    using round64_int [of 2000] round64_int [of 500] by simp_all
  have u1: "usage (I 2000) (Fin 1000) = Fin 200"
    by (simp add: usage_def i)
  have u2: "usage (F (round64 (12 / 10))) (round64 (15 / 10)) = Fin 80"
    using round64_six_fifths round64_three_halves round64_quotient round64_eighty_below
    by (simp add: usage_def)
  have u3: "usage (I 500) (Fin 1000) = Fin 50"
    using round64_half by (simp add: usage_def i)
  have b: "f_less (Fin 0) (round64 (15 / 10))"
    using round64_three_halves by simp
  note t1 = budget_bands [of "Fin 0" "I 500"]
  note t2 = budget_bands [of "Fin 1000" "I 2000"]
  note t3 = budget_bands [of "round64 (15 / 10)" "F (round64 (12 / 10))"]
  note t4 = budget_bands [of "Fin 1000" "I 500"]
  have a1: "budget_alert (I 500) (Fin 0) = None" using t1 by simp
  have a2: "budget_alert (I 2000) (Fin 1000) = Some (Error_msg ''Budget Exceeded!'')"
    using t2 u1 by simp
  have a3: "budget_alert (F (round64 (12 / 10))) (round64 (15 / 10))
       = Some (Warning_msg ''Approaching Budget Limit'')"
    using t3 u2 b by simp
  have a4: "budget_alert (I 500) (Fin 1000) = Some (Success_msg ''Budget Under Control'')"
    using t4 u3 by simp
  from a1 a2 a3 a4 u1 u2 u3 show ?thesis by simp
qed

subsection \<open>Coercion and import\<close>

lemma to_datetime_value:
  "to_datetime P c = (case date_value P c of Some t \<Rightarrow> Ts t | None \<Rightarrow> NaN)"
  by (cases c) (simp_all add: date_value_def)

lemma to_numeric_value:
  "to_numeric P c = (case amount_value P c of Some a \<Rightarrow> a | None \<Rightarrow> NaN)"
  by (cases c) (simp_all add: amount_value_def split: option.splits)

lemma date_value_None: "(date_value P c = None) = (to_datetime P c = NaN)"
  by (cases c) (simp_all add: date_value_def split: option.splits)

lemma amount_value_None: "(amount_value P c = None) = (to_numeric P c = NaN)"
  by (cases c) (simp_all add: amount_value_def split: option.splits)

lemma parses_alt:
  "parses P r = (to_datetime P (r ''Date'') \<noteq> NaN \<and> to_numeric P (r ''Amount'') \<noteq> NaN)"
  by (simp add: parses_def date_value_None amount_value_None)

lemma coerced_alt:
  "coerced P r = r(''Date'' := to_datetime P (r ''Date''), ''Amount'' := to_numeric P (r ''Amount''))"
  by (simp add: coerced_def to_datetime_value to_numeric_value)

lemma to_datetime_idem: "to_datetime P (to_datetime P c) = to_datetime P c"
  by (cases c) (auto split: option.splits)

lemma to_numeric_idem: "to_numeric P (to_numeric P c) = to_numeric P c"
  by (cases c) (auto split: option.splits)

lemma normalize_rows:
  assumes "''Date'' \<in> set (columns df)" "''Amount'' \<in> set (columns df)"
  shows "normalize_df P df =
    Inr \<lparr>columns = columns df, rows = map (coerced P) (filter (parses P) (rows df))\<rparr>"
  using assms
  by (simp add: normalize_df_def coerce_types_def dropna_def assign_def filter_map o_def
      parses_alt [abs_def] coerced_alt [abs_def])

lemma normalize_KeyError:
  "''Date'' \<notin> set (columns df) \<Longrightarrow> normalize_df P df = Inl (KeyError ''Date'')"
  "''Date'' \<in> set (columns df) \<Longrightarrow> ''Amount'' \<notin> set (columns df) \<Longrightarrow> normalize_df P df = Inl (KeyError ''Amount'')"
  by (simp_all add: normalize_df_def coerce_types_def)

lemma coerced_idem: "parses P r \<Longrightarrow> coerced P (coerced P r) = coerced P r"
  by (simp add: coerced_alt to_datetime_idem to_numeric_idem)

lemma parses_coerced: "parses P (coerced P r) = parses P r"
  by (simp add: coerced_alt parses_alt to_datetime_idem to_numeric_idem)

lemma normalize_df_twice:
  "(case normalize_df P T of Inl e \<Rightarrow> Inl e | Inr N \<Rightarrow> normalize_df P N) = normalize_df P T"
proof (cases "''Date'' \<in> set (columns T) \<and> ''Amount'' \<in> set (columns T)")
  case True
  have "map (coerced P) (filter (parses P) (map (coerced P) (filter (parses P) (rows T))))
      = map (coerced P) (filter (parses P) (rows T))"
    by (induction "rows T" arbitrary: T) (auto simp: filter_map o_def parses_coerced coerced_idem)
  with True show ?thesis by (simp add: normalize_rows)
next
  case False
  then show ?thesis by (cases "''Date'' \<in> set (columns T)") (simp_all add: normalize_KeyError)
qed

lemma normalize_fixed:
  assumes "normalize_df P T = Inr N"
  shows "normalize_df P N = Inr N"
  using normalize_df_twice [of P T] assms by simp

lemma temp_df_rows:
  assumes "required_cols \<subseteq> set (columns df)"
  shows "temp_df P df =
    Inr \<lparr>columns = (if ''Description'' \<in> set (columns df) then columns df
                    else columns df @ [''Description'']),
         rows = map (\<lambda>r. coerced P (with_description df r)) (filter (parses P) (rows df))\<rparr>"
proof -
  have c: "''Date'' \<in> set (columns df)" "''Amount'' \<in> set (columns df)"
    using assms by (auto simp: required_cols_def)
  have p: "parses P (r(''Description'' := v)) = parses P r" for r v
    by (simp add: parses_def)
  show ?thesis
  proof (cases "''Description'' \<in> set (columns df)")
    case True
    then show ?thesis using c by (simp add: temp_df_def normalize_rows with_description_def)
  next
    case False
    then show ?thesis using c
      by (simp add: temp_df_def normalize_rows assign_def with_description_def filter_map o_def p)
  qed
qed

lemma upload_ok:
  assumes "required_cols \<subseteq> set (columns (read_csv P file))" "temp_df P (read_csv P file) = Inr L"
  shows "upload_csv P (Some file) s =
     (Inr (), s\<lparr>session_df := Some L, data_file := Some (to_csv P L),
                 ui := ui s @ [Success_msg ''CSV Uploaded & Dashboard Updated'']\<rparr>)"
  using assms by (simp add: upload_csv_def Let_def)

lemma csv_column_to_csv:
  assumes "x \<in> set (columns L)"
  shows "csv_column (to_csv P L) x = map (\<lambda>r. render_cell P (r x)) (rows L)"
  using assms by (simp add: csv_column_def to_csv_def map_of_zip_map o_def)

lemma sample_example: "read_csv sample_pandas example_file = example_frame"
  by (simp add: sample_pandas_def sample_read_csv_def example_file_def example_frame_def
      sample_cell_def csv_column_def sample_int_def)

lemma sample_mixed: "read_csv sample_pandas mixed_file = mixed_frame"
  by (simp add: sample_pandas_def sample_read_csv_def mixed_file_def mixed_frame_def
      sample_cell_def csv_column_def sample_int_def)

lemma example_rows:
  assumes "parse_datetime P ''2024-01-01'' = Some t" "parse_datetime P ''not-a-date'' = None"
  shows "temp_df P example_frame =
    Inr \<lparr>columns = schema,
         rows = [mk_row [(''Date'', Ts t), (''Category'', Str ''Food''), (''Amount'', Int64 100),
                         (''Description'', Str [])]]\<rparr>"
proof -
  have r: "required_cols \<subseteq> set (columns example_frame)"
    by (simp add: required_cols_def example_frame_def)
  show ?thesis
    unfolding temp_df_rows [OF r]
    using assms
    by (auto simp: example_frame_def schema_def parses_def coerced_def with_description_def
        mk_row_def fun_eq_iff date_value_def amount_value_def)
qed

lemma mixed_rows:
  assumes "parse_datetime P ''2024-01-01'' = Some t"
    and "parse_numeric P ''100'' = Some (Fin 100)" "parse_numeric P ''abc'' = None"
  shows "temp_df P mixed_frame =
    Inr \<lparr>columns = schema,
         rows = [mk_row [(''Date'', Ts t), (''Category'', Str ''Food''),
                         (''Amount'', Num (Fin 100)), (''Description'', Str [])]]\<rparr>"
proof -
  have r: "required_cols \<subseteq> set (columns mixed_frame)"
    by (simp add: required_cols_def mixed_frame_def)
  show ?thesis
    unfolding temp_df_rows [OF r]
    using assms
    by (auto simp: mixed_frame_def schema_def parses_def coerced_def with_description_def
        mk_row_def fun_eq_iff date_value_def amount_value_def)
qed

text \<open>
  C1. When the frame read from the uploaded file lacks one of the columns \<open>Date\<close>,
  \<open>Category\<close>, \<open>Amount\<close>, the upload reports the error and stops the run; the ledger of
  the session and the data file are what they were before (only the message is added).
\<close>

theorem import_rejected:
  assumes "\<not> required_cols \<subseteq> set (columns (read_csv P file))"
  shows "upload_csv P (Some file) s =
           (Inl StopScript,
            s\<lparr>ui := ui s @ [Error_msg ''CSV must contain Date, Category, Amount columns'']\<rparr>)
         \<and> session_df (snd (upload_csv P (Some file) s)) = session_df s
         \<and> data_file (snd (upload_csv P (Some file) s)) = data_file s"
  using assms by (simp add: upload_csv_def Let_def)

theorem import_rejected_witness:
  "\<not> required_cols \<subseteq> set (columns (read_csv sample_pandas file_without_amount))
   \<and> fst (upload_csv sample_pandas (Some file_without_amount) prior_state) = Inl StopScript
   \<and> session_df (snd (upload_csv sample_pandas (Some file_without_amount) prior_state)) = Some prior_ledger
   \<and> data_file (snd (upload_csv sample_pandas (Some file_without_amount) prior_state))
       = Some (to_csv sample_pandas prior_ledger)
   \<and> ui (snd (upload_csv sample_pandas (Some file_without_amount) prior_state))
       = [Error_msg ''CSV must contain Date, Category, Amount columns'']"
proof -
  have h: "\<not> required_cols \<subseteq> set (columns (read_csv sample_pandas file_without_amount))"
    by (simp add: required_cols_def sample_pandas_def sample_read_csv_def file_without_amount_def)
  show ?thesis
    using h import_rejected [OF h, of prior_state] by (simp add: prior_state_def)
qed

text \<open>
  C2. When the frame read from the uploaded file has the three required columns, the
  upload succeeds; the new ledger, in the session and on disk, consists of the rows of the
  file whose date and amount both parse, coerced, and of nothing the ledger held before;
  its columns are those of the file, with \<open>Description\<close> added when the file has none;
  and the data file holds the rendering of exactly these rows. For the file
  \<^verbatim>\<open>Date,Category,Amount / 2024-01-01,Food,100 / not-a-date,Food,50\<close>, read as
  \<open>example_frame\<close> by a pandas that parses the first date and not the second, the ledger
  has exactly one record, the first row. Likewise for the file
  \<^verbatim>\<open>Date,Category,Amount / 2024-01-01,Food,100 / 2024-01-01,Food,abc\<close>, whose second
  amount is no number.
\<close>

theorem import_drops_unparsed_rows:
  "(required_cols \<subseteq> set (columns (read_csv P file)) \<longrightarrow>
      (\<exists>L. upload_csv P (Some file) s =
             (Inr (),
              s\<lparr>session_df := Some L,
                data_file := Some \<lparr>header = columns L,
                  body = map (\<lambda>r. map (\<lambda>c. render_cell P (r c)) (columns L)) (rows L)\<rparr>,
                ui := ui s @ [Success_msg ''CSV Uploaded & Dashboard Updated'']\<rparr>)
         \<and> columns L = (if ''Description'' \<in> set (columns (read_csv P file))
                        then columns (read_csv P file)
                        else columns (read_csv P file) @ [''Description''])
         \<and> rows L = map (\<lambda>r. coerced P (with_description (read_csv P file) r))
                       (filter (parses P) (rows (read_csv P file)))))
   \<and> (read_csv P example_file = example_frame \<and> parse_datetime P ''2024-01-01'' = Some t
        \<and> parse_datetime P ''not-a-date'' = None \<longrightarrow>
      session_df (snd (upload_csv P (Some example_file) s)) =
        Some \<lparr>columns = schema,
              rows = [mk_row [(''Date'', Ts t), (''Category'', Str ''Food''),
                              (''Amount'', Int64 100), (''Description'', Str [])]]\<rparr>)
   \<and> (read_csv P mixed_file = mixed_frame \<and> parse_datetime P ''2024-01-01'' = Some t
        \<and> parse_numeric P ''100'' = Some (Fin 100) \<and> parse_numeric P ''abc'' = None \<longrightarrow>
      session_df (snd (upload_csv P (Some mixed_file) s)) =
        Some \<lparr>columns = schema,
              rows = [mk_row [(''Date'', Ts t), (''Category'', Str ''Food''),
                              (''Amount'', Num (Fin 100)), (''Description'', Str [])]]\<rparr>)"
proof (intro conjI impI)
  assume r: "required_cols \<subseteq> set (columns (read_csv P file))"
  show "\<exists>L. upload_csv P (Some file) s =
             (Inr (),
              s\<lparr>session_df := Some L,
                data_file := Some \<lparr>header = columns L,
                  body = map (\<lambda>r. map (\<lambda>c. render_cell P (r c)) (columns L)) (rows L)\<rparr>,
                ui := ui s @ [Success_msg ''CSV Uploaded & Dashboard Updated'']\<rparr>)
         \<and> columns L = (if ''Description'' \<in> set (columns (read_csv P file))
                        then columns (read_csv P file)
                        else columns (read_csv P file) @ [''Description''])
         \<and> rows L = map (\<lambda>r. coerced P (with_description (read_csv P file) r))
                       (filter (parses P) (rows (read_csv P file)))"
  proof -
    let ?L = "\<lparr>columns = (if ''Description'' \<in> set (columns (read_csv P file))
                    then columns (read_csv P file)
                    else columns (read_csv P file) @ [''Description'']),
         rows = map (\<lambda>r. coerced P (with_description (read_csv P file) r))
                  (filter (parses P) (rows (read_csv P file)))\<rparr>"
    have u: "upload_csv P (Some file) s =
       (Inr (), s\<lparr>session_df := Some ?L, data_file := Some (to_csv P ?L),
                   ui := ui s @ [Success_msg ''CSV Uploaded & Dashboard Updated'']\<rparr>)"
      by (rule upload_ok [OF r temp_df_rows [OF r]])
    have c: "to_csv P ?L = \<lparr>header = columns ?L,
        body = map (\<lambda>r. map (\<lambda>c. render_cell P (r c)) (columns ?L)) (rows ?L)\<rparr>"
      by (simp only: to_csv_def)
    have cc: "columns ?L = (if ''Description'' \<in> set (columns (read_csv P file))
                        then columns (read_csv P file)
                        else columns (read_csv P file) @ [''Description''])"
      by simp
    have rr: "rows ?L = map (\<lambda>r. coerced P (with_description (read_csv P file) r))
                       (filter (parses P) (rows (read_csv P file)))"
      by simp
    show ?thesis
      apply (rule exI [of _ ?L])
      apply (rule conjI)
       apply (simp only: u c)
      apply (rule conjI)
       apply (rule cc)
      apply (rule rr)
      done
  qed
next
  assume a: "read_csv P example_file = example_frame \<and> parse_datetime P ''2024-01-01'' = Some t
        \<and> parse_datetime P ''not-a-date'' = None"
  then have r: "required_cols \<subseteq> set (columns (read_csv P example_file))"
    by (simp add: required_cols_def example_frame_def)
  from a have "temp_df P (read_csv P example_file) = Inr \<lparr>columns = schema,
         rows = [mk_row [(''Date'', Ts t), (''Category'', Str ''Food''), (''Amount'', Int64 100),
                         (''Description'', Str [])]]\<rparr>"
    by (simp add: example_rows)
  from upload_ok [OF r this]
  show "session_df (snd (upload_csv P (Some example_file) s)) =
        Some \<lparr>columns = schema,
              rows = [mk_row [(''Date'', Ts t), (''Category'', Str ''Food''),
                              (''Amount'', Int64 100), (''Description'', Str [])]]\<rparr>"
    by simp
next
  assume a: "read_csv P mixed_file = mixed_frame \<and> parse_datetime P ''2024-01-01'' = Some t
        \<and> parse_numeric P ''100'' = Some (Fin 100) \<and> parse_numeric P ''abc'' = None"
  then have r: "required_cols \<subseteq> set (columns (read_csv P mixed_file))"
    by (simp add: required_cols_def mixed_frame_def)
  from a have "temp_df P (read_csv P mixed_file) = Inr \<lparr>columns = schema,
         rows = [mk_row [(''Date'', Ts t), (''Category'', Str ''Food''),
                         (''Amount'', Num (Fin 100)), (''Description'', Str [])]]\<rparr>"
    by (simp add: mixed_rows)
  from upload_ok [OF r this]
  show "session_df (snd (upload_csv P (Some mixed_file) s)) =
        Some \<lparr>columns = schema,
              rows = [mk_row [(''Date'', Ts t), (''Category'', Str ''Food''),
                              (''Amount'', Num (Fin 100)), (''Description'', Str [])]]\<rparr>"
    by simp
qed

theorem import_drops_unparsed_rows_witness:
  "required_cols \<subseteq> set (columns (read_csv sample_pandas example_file))
   \<and> read_csv sample_pandas example_file = example_frame
   \<and> read_csv sample_pandas mixed_file = mixed_frame
   \<and> parse_datetime sample_pandas ''2024-01-01'' = Some 1704067200000000000
   \<and> parse_datetime sample_pandas ''not-a-date'' = None
   \<and> parse_numeric sample_pandas ''100'' = Some (Fin 100)
   \<and> parse_numeric sample_pandas ''abc'' = None
   \<and> upload_csv sample_pandas (Some example_file) prior_state =
       (Inr (),
        prior_state\<lparr>
          session_df := Some \<lparr>columns = schema,
              rows = [mk_row [(''Date'', Ts 1704067200000000000), (''Category'', Str ''Food''),
                              (''Amount'', Int64 100), (''Description'', Str [])]]\<rparr>,
          data_file := Some \<lparr>header = schema, body = [[''2024-01-01'', ''Food'', ''100'', []]]\<rparr>,
          ui := [Success_msg ''CSV Uploaded & Dashboard Updated'']\<rparr>)
   \<and> session_df (snd (upload_csv sample_pandas (Some mixed_file) prior_state)) =
        Some \<lparr>columns = schema,
              rows = [mk_row [(''Date'', Ts 1704067200000000000), (''Category'', Str ''Food''),
                              (''Amount'', Num (Fin 100)), (''Description'', Str [])]]\<rparr>"
proof -
  let ?L = "\<lparr>columns = schema,
              rows = [mk_row [(''Date'', Ts 1704067200000000000), (''Category'', Str ''Food''),
                              (''Amount'', Int64 100), (''Description'', Str [])]]\<rparr>"
  have h: "required_cols \<subseteq> set (columns (read_csv sample_pandas example_file))"
    by (simp add: sample_example) (simp add: required_cols_def example_frame_def)
  have p: "parse_datetime sample_pandas ''2024-01-01'' = Some 1704067200000000000"
    "parse_datetime sample_pandas ''not-a-date'' = None"
    "parse_numeric sample_pandas ''100'' = Some (Fin 100)"
    "parse_numeric sample_pandas ''abc'' = None"
    by (simp_all add: sample_pandas_def sample_int_def)
  note inst = import_drops_unparsed_rows [of sample_pandas example_file prior_state
      1704067200000000000]
  have e1: "session_df (snd (upload_csv sample_pandas (Some example_file) prior_state)) = Some ?L"
    by (rule mp [OF conjunct1 [OF conjunct2 [OF inst]]]) (intro conjI sample_example p)
  have e2: "session_df (snd (upload_csv sample_pandas (Some mixed_file) prior_state)) =
        Some \<lparr>columns = schema,
              rows = [mk_row [(''Date'', Ts 1704067200000000000), (''Category'', Str ''Food''),
                              (''Amount'', Num (Fin 100)), (''Description'', Str [])]]\<rparr>"
    by (rule mp [OF conjunct2 [OF conjunct2 [OF inst]]]) (intro conjI sample_mixed p)
  from mp [OF conjunct1 [OF inst] h] obtain L where
    u: "upload_csv sample_pandas (Some example_file) prior_state =
          (Inr (),
           prior_state\<lparr>session_df := Some L,
             data_file := Some \<lparr>header = columns L,
               body = map (\<lambda>r. map (\<lambda>c. render_cell sample_pandas (r c)) (columns L)) (rows L)\<rparr>,
             ui := ui prior_state @ [Success_msg ''CSV Uploaded & Dashboard Updated'']\<rparr>)"
    by (elim exE conjE) (rule that)
  from u e1 have L: "L = ?L" by simp
  have f: "\<lparr>header = columns ?L,
      body = map (\<lambda>r. map (\<lambda>c. render_cell sample_pandas (r c)) (columns ?L)) (rows ?L)\<rparr>
      = \<lparr>header = schema, body = [[''2024-01-01'', ''Food'', ''100'', []]]\<rparr>"
    by (simp add: schema_def mk_row_def sample_pandas_def)
  have i: "ui prior_state = []" by (simp add: prior_state_def)
  have u': "upload_csv sample_pandas (Some example_file) prior_state =
       (Inr (),
        prior_state\<lparr>session_df := Some ?L,
          data_file := Some \<lparr>header = schema, body = [[''2024-01-01'', ''Food'', ''100'', []]]\<rparr>,
          ui := [Success_msg ''CSV Uploaded & Dashboard Updated'']\<rparr>)"
    using u unfolding L f i by simp
  show ?thesis
    by (intro conjI) (rule h sample_example sample_mixed p u' e2)+
qed

text \<open>
  C3. When the frame read from the uploaded file has the required columns and none of its
  rows parses, the upload still succeeds: the ledger of the session becomes the table
  without rows and the data file its header alone, whatever the ledger held before.
\<close>

theorem import_without_valid_rows:
  assumes "required_cols \<subseteq> set (columns (read_csv P file))"
    and "list_all (\<lambda>r. \<not> parses P r) (rows (read_csv P file))"
  shows "upload_csv P (Some file) s =
     (let cols = (if ''Description'' \<in> set (columns (read_csv P file))
                  then columns (read_csv P file)
                  else columns (read_csv P file) @ [''Description''])
      in (Inr (),
          s\<lparr>session_df := Some \<lparr>columns = cols, rows = []\<rparr>,
            data_file := Some \<lparr>header = cols, body = []\<rparr>,
            ui := ui s @ [Success_msg ''CSV Uploaded & Dashboard Updated'']\<rparr>))"
proof -
  have "filter (parses P) (rows (read_csv P file)) = []"
    using assms(2) by (simp add: list_all_iff)
  then show ?thesis
    using upload_ok [OF assms(1) temp_df_rows [OF assms(1)], of s]
    by (simp add: to_csv_def Let_def)
qed

theorem import_without_valid_rows_witness:
  "required_cols \<subseteq> set (columns (read_csv sample_pandas unparsed_file))
   \<and> list_all (\<lambda>r. \<not> parses sample_pandas r) (rows (read_csv sample_pandas unparsed_file))
   \<and> rows (read_csv sample_pandas unparsed_file) \<noteq> []
   \<and> session_df prior_state = Some prior_ledger \<and> rows prior_ledger \<noteq> []
   \<and> upload_csv sample_pandas (Some unparsed_file) prior_state =
      (Inr (),
       prior_state\<lparr>session_df := Some \<lparr>columns = schema, rows = []\<rparr>,
         data_file := Some \<lparr>header = schema, body = []\<rparr>,
         ui := [Success_msg ''CSV Uploaded & Dashboard Updated'']\<rparr>)"
proof -
  have h1: "required_cols \<subseteq> set (columns (read_csv sample_pandas unparsed_file))"
    by (simp add: required_cols_def sample_pandas_def sample_read_csv_def unparsed_file_def)
  have h2: "list_all (\<lambda>r. \<not> parses sample_pandas r) (rows (read_csv sample_pandas unparsed_file))"
    by (simp add: parses_def date_value_def sample_pandas_def sample_read_csv_def
        unparsed_file_def mk_row_def sample_cell_def csv_column_def sample_int_def)
  have h3: "rows (read_csv sample_pandas unparsed_file) \<noteq> []"
    by (simp add: sample_pandas_def sample_read_csv_def unparsed_file_def)
  have c: "columns (read_csv sample_pandas unparsed_file) = [''Date'', ''Category'', ''Amount'']"
    by (simp add: sample_pandas_def sample_read_csv_def unparsed_file_def)
  have h4: "session_df prior_state = Some prior_ledger" "ui prior_state = []"
    by (simp_all add: prior_state_def)
  have h5: "rows prior_ledger \<noteq> []"
    by (simp add: prior_ledger_def)
  have "upload_csv sample_pandas (Some unparsed_file) prior_state =
      (Inr (),
       prior_state\<lparr>session_df := Some \<lparr>columns = schema, rows = []\<rparr>,
         data_file := Some \<lparr>header = schema, body = []\<rparr>,
         ui := [Success_msg ''CSV Uploaded & Dashboard Updated'']\<rparr>)"
    using import_without_valid_rows [OF h1 h2, of prior_state]
    by (simp add: c schema_def h4 Let_def)
  with h1 h2 h3 h4 h5 show ?thesis by simp
qed

text \<open>
  C10. When the frame read from the uploaded file has the required columns and a column
  \<open>x\<close> outside the schema, the upload succeeds, the new ledger has every column of the
  file, column \<open>x\<close> of the ledger holds the values the file has in the rows that were kept,
  and the data file has the columns of the ledger as its header and the rendering of its
  rows as its body: under \<open>x\<close> it holds the rendering of those same values.
\<close>

theorem import_keeps_extra_columns:
  assumes "required_cols \<subseteq> set (columns (read_csv P file))"
    and "x \<in> set (columns (read_csv P file))"
    and "x \<notin> set schema"
  shows "\<exists>L F. upload_csv P (Some file) s =
             (Inr (), s\<lparr>session_df := Some L, data_file := Some F,
                         ui := ui s @ [Success_msg ''CSV Uploaded & Dashboard Updated'']\<rparr>)
         \<and> set (columns (read_csv P file)) \<subseteq> set (columns L)
         \<and> get_col L x = Inr (map (\<lambda>r. r x) (filter (parses P) (rows (read_csv P file))))
         \<and> header F = columns L
         \<and> body F = map (\<lambda>r. map (\<lambda>c. render_cell P (r c)) (columns L)) (rows L)
         \<and> csv_column F x
             = map (\<lambda>r. render_cell P (r x)) (filter (parses P) (rows (read_csv P file)))"
proof -
  let ?df = "read_csv P file"
  let ?L = "\<lparr>columns = (if ''Description'' \<in> set (columns ?df) then columns ?df
                    else columns ?df @ [''Description'']),
         rows = map (\<lambda>r. coerced P (with_description ?df r)) (filter (parses P) (rows ?df))\<rparr>"
  have x: "x \<noteq> ''Date''" "x \<noteq> ''Amount''" "x \<noteq> ''Description''"
    using assms(3) by (auto simp: schema_def)
  then have k: "coerced P (with_description ?df r) x = r x" for r
    by (simp add: coerced_def with_description_def)
  have xl: "x \<in> set (columns ?L)" using assms(2) by simp
  have u: "upload_csv P (Some file) s =
       (Inr (), s\<lparr>session_df := Some ?L, data_file := Some (to_csv P ?L),
                   ui := ui s @ [Success_msg ''CSV Uploaded & Dashboard Updated'']\<rparr>)"
    by (rule upload_ok [OF assms(1) temp_df_rows [OF assms(1)]])
  have 1: "set (columns ?df) \<subseteq> set (columns ?L)" by auto
  have 2: "get_col ?L x = Inr (map (\<lambda>r. r x) (filter (parses P) (rows ?df)))"
    using assms(2) by (simp add: get_col_def o_def k)
  have 3: "header (to_csv P ?L) = columns ?L" by (simp add: to_csv_def)
  have 4: "body (to_csv P ?L) = map (\<lambda>r. map (\<lambda>c. render_cell P (r c)) (columns ?L)) (rows ?L)"
    by (simp add: to_csv_def)
  have 5: "csv_column (to_csv P ?L) x
      = map (\<lambda>r. render_cell P (r x)) (filter (parses P) (rows ?df))"
    unfolding csv_column_to_csv [OF xl] by (simp add: o_def k)
  show ?thesis
    by (intro exI [of _ ?L] exI [of _ "to_csv P ?L"] conjI) (rule u 1 2 3 4 5)+
qed

theorem import_keeps_extra_columns_witness:
  "required_cols \<subseteq> set (columns (read_csv sample_pandas annotated_file))
   \<and> ''Note'' \<in> set (columns (read_csv sample_pandas annotated_file))
   \<and> ''Note'' \<notin> set schema
   \<and> (\<exists>L. upload_csv sample_pandas (Some annotated_file) prior_state =
             (Inr (),
              prior_state\<lparr>session_df := Some L,
                data_file := Some
                  \<lparr>header = [''Date'', ''Category'', ''Amount'', ''Note'', ''Description''],
                   body = [[''2024-01-01'', ''Food'', ''100'', ''cash'', []]]\<rparr>,
                ui := [Success_msg ''CSV Uploaded & Dashboard Updated'']\<rparr>)
         \<and> get_col L ''Note'' = Inr [Str ''cash''])"
proof -
  let ?df = "read_csv sample_pandas annotated_file"
  have d: "?df = \<lparr>columns = [''Date'', ''Category'', ''Amount'', ''Note''],
      rows = [mk_row [(''Date'', Str ''2024-01-01''), (''Category'', Str ''Food''),
                      (''Amount'', Int64 100), (''Note'', Str ''cash'')]]\<rparr>"
    by (simp add: sample_pandas_def sample_read_csv_def annotated_file_def
        sample_cell_def csv_column_def sample_int_def)
  have h1: "required_cols \<subseteq> set (columns ?df)"
    unfolding d by (simp add: required_cols_def)
  have h2: "''Note'' \<in> set (columns ?df)"
    unfolding d by simp
  have h3: "''Note'' \<notin> set schema"
    by (simp add: schema_def)
  have p: "filter (parses sample_pandas) (rows ?df) = rows ?df"
    unfolding d
    by (simp add: parses_def date_value_def amount_value_def mk_row_def sample_pandas_def)
  have i: "ui prior_state = []"
    by (simp add: prior_state_def)
  from import_keeps_extra_columns [OF h1 h2 h3, of prior_state]
  obtain L F where
    u: "upload_csv sample_pandas (Some annotated_file) prior_state =
       (Inr (), prior_state\<lparr>session_df := Some L, data_file := Some F,
                   ui := ui prior_state @ [Success_msg ''CSV Uploaded & Dashboard Updated'']\<rparr>)"
    and g: "get_col L ''Note'' = Inr (map (\<lambda>r. r ''Note'') (filter (parses sample_pandas) (rows ?df)))"
    and hd: "header F = columns L"
    and bd: "body F = map (\<lambda>r. map (\<lambda>c. render_cell sample_pandas (r c)) (columns L)) (rows L)"
    by (elim exE conjE) (rule that)
  have "session_df (snd (upload_csv sample_pandas (Some annotated_file) prior_state)) = Some L"
    using u by simp
  moreover have "session_df (snd (upload_csv sample_pandas (Some annotated_file) prior_state))
      = Some \<lparr>columns = (if ''Description'' \<in> set (columns ?df) then columns ?df
                    else columns ?df @ [''Description'']),
         rows = map (\<lambda>r. coerced sample_pandas (with_description ?df r))
                  (filter (parses sample_pandas) (rows ?df))\<rparr>"
    using upload_ok [OF h1 temp_df_rows [OF h1], of prior_state] by simp
  ultimately have t: "temp_df sample_pandas ?df = Inr L"
    unfolding temp_df_rows [OF h1] by simp
  have L: "columns L = [''Date'', ''Category'', ''Amount'', ''Note'', ''Description'']"
    "map (\<lambda>r. map (\<lambda>c. render_cell sample_pandas (r c)) (columns L)) (rows L)
       = [[''2024-01-01'', ''Food'', ''100'', ''cash'', []]]"
    using t unfolding temp_df_rows [OF h1] p unfolding d
    by (auto simp: coerced_def with_description_def date_value_def amount_value_def mk_row_def
        sample_pandas_def)
  have F: "F = \<lparr>header = [''Date'', ''Category'', ''Amount'', ''Note'', ''Description''],
                   body = [[''2024-01-01'', ''Food'', ''100'', ''cash'', []]]\<rparr>"
  proof -
    have "body F = [[''2024-01-01'', ''Food'', ''100'', ''cash'', []]]"
      using bd by (simp only: L(2))
    moreover have "header F = [''Date'', ''Category'', ''Amount'', ''Note'', ''Description'']"
      using hd by (simp only: L(1))
    ultimately show ?thesis by (cases F) simp
  qed
  have g': "get_col L ''Note'' = Inr [Str ''cash'']"
    using g unfolding p unfolding d by (simp add: mk_row_def)
  have "upload_csv sample_pandas (Some annotated_file) prior_state =
             (Inr (),
              prior_state\<lparr>session_df := Some L,
                data_file := Some
                  \<lparr>header = [''Date'', ''Category'', ''Amount'', ''Note'', ''Description''],
                   body = [[''2024-01-01'', ''Food'', ''100'', ''cash'', []]]\<rparr>,
                ui := [Success_msg ''CSV Uploaded & Dashboard Updated'']\<rparr>)"
    using u unfolding F i by simp
  with g' have "\<exists>L. upload_csv sample_pandas (Some annotated_file) prior_state =
             (Inr (),
              prior_state\<lparr>session_df := Some L,
                data_file := Some
                  \<lparr>header = [''Date'', ''Category'', ''Amount'', ''Note'', ''Description''],
                   body = [[''2024-01-01'', ''Food'', ''100'', ''cash'', []]]\<rparr>,
                ui := [Success_msg ''CSV Uploaded & Dashboard Updated'']\<rparr>)
         \<and> get_col L ''Note'' = Inr [Str ''cash'']"
    by (intro exI [of _ L] conjI)
  with h1 h2 h3 show ?thesis by (intro conjI)
qed

text \<open>
  C9, as stated, fails. \<open>load_data\<close> coerces the two columns and drops nothing (lines
  27-28), so the frame it returns may hold a row with a null date; the pass of lines
  114-116 then changes it. Here the data file has one row dated \<open>not-a-date\<close>: the session
  starts with a ledger of one row, and normalizing that ledger leaves no row.
\<close>

theorem load_not_normalized:
  "fst (init_session sample_pandas unloaded_state) = Inr loaded_ledger
   \<and> rows loaded_ledger \<noteq> []
   \<and> normalize_df sample_pandas loaded_ledger = Inr (loaded_ledger\<lparr>rows := []\<rparr>)"
proof -
  have "read_csv sample_pandas stale_file =
     \<lparr>columns = schema,
      rows = [mk_row [(''Date'', Str ''not-a-date''), (''Category'', Str ''Food''),
                      (''Amount'', Int64 50), (''Description'', Str ''lunch'')]]\<rparr>"
    by (simp add: sample_pandas_def sample_read_csv_def stale_file_def schema_def
        sample_cell_def csv_column_def sample_int_def)
  then have "coerce_types sample_pandas (read_csv sample_pandas stale_file) = Inr loaded_ledger"
    by (simp add: coerce_types_def assign_def schema_def loaded_ledger_def)
       (auto simp: mk_row_def fun_eq_iff sample_pandas_def)
  then have 1: "fst (init_session sample_pandas unloaded_state) = Inr loaded_ledger"
    by (simp add: init_session_def load_data_def unloaded_state_def)
  have 2: "rows loaded_ledger \<noteq> []" by (simp add: loaded_ledger_def)
  have 3: "normalize_df sample_pandas loaded_ledger = Inr (loaded_ledger\<lparr>rows := []\<rparr>)"
    by (simp add: normalize_df_def coerce_types_def dropna_def assign_def loaded_ledger_def
        schema_def mk_row_def)
  from 1 2 3 show ?thesis by simp
qed

text \<open>
  C9, amended. Coercing and dropping is idempotent: applied to its own result it returns
  that result unchanged (and an error of the first pass is the error of the whole). So
  the pass of lines 114-116 changes nothing in a ledger that an upload has just set.
\<close>

theorem normalize_idempotent:
  "(case normalize_df P T of Inl e \<Rightarrow> Inl e | Inr N \<Rightarrow> normalize_df P N) = normalize_df P T
   \<and> (upload_csv P (Some file) s = (Inr (), s') \<longrightarrow>
        (\<exists>L. session_df s' = Some L \<and> normalize_df P L = Inr L))"
proof (intro conjI impI)
  show "(case normalize_df P T of Inl e \<Rightarrow> Inl e | Inr N \<Rightarrow> normalize_df P N) = normalize_df P T"
    by (rule normalize_df_twice)
next
  assume u: "upload_csv P (Some file) s = (Inr (), s')"
  then obtain L where "temp_df P (read_csv P file) = Inr L" "session_df s' = Some L"
    by (auto simp: upload_csv_def Let_def split: if_splits sum.splits)
  then show "\<exists>L. session_df s' = Some L \<and> normalize_df P L = Inr L"
    by (auto simp: temp_df_def dest: normalize_fixed)
qed

theorem normalize_idempotent_witness:
  "fst (upload_csv sample_pandas (Some example_file) prior_state) = Inr ()
   \<and> (\<exists>L. session_df (snd (upload_csv sample_pandas (Some example_file) prior_state)) = Some L
         \<and> normalize_df sample_pandas L = Inr L)"
proof -
  have r: "required_cols \<subseteq> set (columns (read_csv sample_pandas example_file))"
    by (simp add: sample_example) (simp add: required_cols_def example_frame_def)
  have f: "fst (upload_csv sample_pandas (Some example_file) prior_state) = Inr ()"
    using upload_ok [OF r temp_df_rows [OF r]] by simp
  then have "upload_csv sample_pandas (Some example_file) prior_state
      = (Inr (), snd (upload_csv sample_pandas (Some example_file) prior_state))"
    by (metis prod.collapse)
  with normalize_idempotent [of sample_pandas example_frame example_file prior_state
      "snd (upload_csv sample_pandas (Some example_file) prior_state)"]
  show ?thesis using f by simp
qed

subsection \<open>Manual entry\<close>

text \<open>
  What lines 63-77 do by themselves: in a session that holds a ledger, submitting the form
  adds one row, the last, with the values of the form; the whole new table is written to
  the data file; and the session gate then returns the new table without reading the
  file.
\<close>

lemma add_expense_appends:
  assumes "session_df s = Some df"
  shows "\<exists>df'. add_expense P f s =
            (Inr (),
             s\<lparr>session_df := Some df',
               data_file := Some \<lparr>header = columns df', body = map (map (render_cell P)) (cells df')\<rparr>,
               ui := ui s @ [Success_msg ''Expense Added'']\<rparr>)
     \<and> set schema \<subseteq> set (columns df')
     \<and> length (rows df') = length (rows df) + 1
     \<and> map (last (rows df')) schema =
         [Ts (date_to_datetime (expense_date f)), Str (category f), Num (amount f),
          Str (description f)]
     \<and> init_session P (snd (add_expense P f s)\<lparr>data_file := d\<rparr>)
         = (Inr df', snd (add_expense P f s)\<lparr>data_file := d\<rparr>)"
proof -
  let ?df' = "pd_concat df (DataFrame (new_row f))"
  have a: "add_expense P f s =
            (Inr (), s\<lparr>session_df := Some ?df', data_file := Some (to_csv P ?df'),
                        ui := ui s @ [Success_msg ''Expense Added'']\<rparr>)"
    using assms by (simp add: add_expense_def Let_def)
  have t: "to_csv P ?df' = \<lparr>header = columns ?df', body = map (map (render_cell P)) (cells ?df')\<rparr>"
    by (simp add: to_csv_def cells_def o_def)
  have c: "set schema \<subseteq> set (columns ?df')"
    by (auto simp: pd_concat_def DataFrame_def new_row_def schema_def Let_def)
  have l: "length (rows ?df') = length (rows df) + 1"
    by (simp add: pd_concat_def DataFrame_def Let_def)
  have r: "map (last (rows ?df')) schema =
         [Ts (date_to_datetime (expense_date f)), Str (category f), Num (amount f),
          Str (description f)]"
    by (simp add: pd_concat_def DataFrame_def new_row_def schema_def align_def mk_row_def Let_def
        last_map)
  have i: "init_session P (snd (add_expense P f s)\<lparr>data_file := d\<rparr>)
         = (Inr ?df', snd (add_expense P f s)\<lparr>data_file := d\<rparr>)"
    by (simp add: a init_session_def)
  show ?thesis by (rule exI [of _ ?df']) (use a [unfolded t] c l r i in blast)
qed

lemma view_keeps_state:
  assumes "session_df s = Some df" "\<not> empty_df df"
  shows "snd (view P m c s) = s"
  using assms
  by (simp add: view_def clean_def split: sum.splits)

lemma run_state:
  assumes "init_session P s = (Inr d, s1)" "add_expense P f s1 = (Inr (), s2)"
    and "upload_csv P up s2 = (Inr (), s3)"
  shows "snd (run P (Some f) up b m c s) = snd (view P m c s3)"
  using assms by (simp add: run_def split: prod.splits sum.splits)

text \<open>
  C4 fails in the code. The uploader keeps its file from one run to the next, and the run
  that handles the form goes on to lines 84-102. Here the session holds one record, the
  form is submitted while the uploader still holds the file of the specification's
  example: lines 63-77 add the record to the ledger and write it to the data file, the
  success is reported, and then the upload of the same run replaces the ledger and the
  file by the table of the uploaded file. After the run the record of the form is neither
  in the session nor on disk.
\<close>

theorem append_lost_on_upload:
  "map_option cells (session_df (snd (add_expense sample_pandas lunch prior_state)))
     = Some [[Ts 0, Str ''Bills'', Num (Fin 50), Str ''rent''],
             [Ts 1704067200000000000, Str ''Food'', Num (Fin 100), Str ''lunch'']]
   \<and> data_file (snd (add_expense sample_pandas lunch prior_state))
     = Some \<lparr>header = schema,
             body = [[''1970-01-01'', ''Bills'', ''50.0'', ''rent''],
                     [''2024-01-01'', ''Food'', ''100.0'', ''lunch'']]\<rparr>
   \<and> map_option cells
        (session_df (snd (run sample_pandas (Some lunch) (Some example_file) (Fin 0)
                            (Str ''All'') (Str ''All'') prior_state)))
     = Some [[Ts 1704067200000000000, Str ''Food'', Int64 100, Str []]]
   \<and> data_file (snd (run sample_pandas (Some lunch) (Some example_file) (Fin 0)
                        (Str ''All'') (Str ''All'') prior_state))
     = Some \<lparr>header = schema, body = [[''2024-01-01'', ''Food'', ''100'', []]]\<rparr>
   \<and> ui (snd (run sample_pandas (Some lunch) (Some example_file) (Fin 0)
                 (Str ''All'') (Str ''All'') prior_state))
     = [Success_msg ''Expense Added'', Success_msg ''CSV Uploaded & Dashboard Updated'']"
proof -
  let ?L = "\<lparr>columns = schema,
         rows = [mk_row [(''Date'', Ts 1704067200000000000), (''Category'', Str ''Food''),
                         (''Amount'', Int64 100), (''Description'', Str [])]]\<rparr>"
  let ?A = "pd_concat prior_ledger (DataFrame (new_row lunch))"
  let ?s2 = "prior_state\<lparr>session_df := Some ?A, data_file := Some (to_csv sample_pandas ?A),
                        ui := ui prior_state @ [Success_msg ''Expense Added'']\<rparr>"
  let ?s3 = "?s2\<lparr>session_df := Some ?L, data_file := Some (to_csv sample_pandas ?L),
                 ui := ui ?s2 @ [Success_msg ''CSV Uploaded & Dashboard Updated'']\<rparr>"
  have i: "init_session sample_pandas prior_state = (Inr prior_ledger, prior_state)"
    by (simp add: init_session_def prior_state_def)
  have a: "add_expense sample_pandas lunch prior_state = (Inr (), ?s2)"
    by (simp add: add_expense_def prior_state_def Let_def)
  have cA: "columns ?A = schema"
    by (simp add: pd_concat_def prior_ledger_def DataFrame_def new_row_def schema_def Let_def)
  have A: "cells ?A = [[Ts 0, Str ''Bills'', Num (Fin 50), Str ''rent''],
             [Ts 1704067200000000000, Str ''Food'', Num (Fin 100), Str ''lunch'']]"
    unfolding cells_def cA
    by (simp add: pd_concat_def prior_ledger_def DataFrame_def new_row_def schema_def Let_def
        align_def mk_row_def lunch_def date_to_datetime_def)
  have fA: "to_csv sample_pandas ?A = \<lparr>header = schema,
             body = [[''1970-01-01'', ''Bills'', ''50.0'', ''rent''],
                     [''2024-01-01'', ''Food'', ''100.0'', ''lunch'']]\<rparr>"
  proof -
    have "to_csv sample_pandas ?A
        = \<lparr>header = columns ?A, body = map (map (render_cell sample_pandas)) (cells ?A)\<rparr>"
      by (simp add: to_csv_def cells_def o_def)
    then show ?thesis unfolding cA A by (simp add: sample_pandas_def)
  qed
  have r: "required_cols \<subseteq> set (columns (read_csv sample_pandas example_file))"
    by (simp add: sample_example) (simp add: required_cols_def example_frame_def)
  have t: "temp_df sample_pandas (read_csv sample_pandas example_file) = Inr ?L"
    unfolding sample_example by (rule example_rows) (simp_all add: sample_pandas_def)
  have u: "upload_csv sample_pandas (Some example_file) ?s2 = (Inr (), ?s3)"
    by (rule upload_ok [OF r t])
  have e: "\<not> empty_df ?L" by (simp add: empty_df_def schema_def)
  have s3: "session_df ?s3 = Some ?L" by simp
  have run: "snd (run sample_pandas (Some lunch) (Some example_file) (Fin 0)
                 (Str ''All'') (Str ''All'') prior_state) = ?s3"
    unfolding run_state [OF i a u] by (rule view_keeps_state [OF s3 e])
  have L: "cells ?L = [[Ts 1704067200000000000, Str ''Food'', Int64 100, Str []]]"
    by (simp add: cells_def schema_def mk_row_def)
  have fL: "to_csv sample_pandas ?L
      = \<lparr>header = schema, body = [[''2024-01-01'', ''Food'', ''100'', []]]\<rparr>"
    by (simp add: to_csv_def schema_def mk_row_def sample_pandas_def)
  have p: "ui prior_state = []" by (simp add: prior_state_def)
  show ?thesis
    unfolding run a by (simp add: A L fA fL p)
qed

subsection \<open>Filters\<close>

text \<open>
  C8. Filtering by month only and then by category only is filtering by both at once
  (an error of the first filter being the error of the composition). The filters leave
  the frame they are applied to, and the state of the session, as cleaning left them.
\<close>

theorem filter_composes:
  "(case filtered_df T m (Str ''All'') of Inl e \<Rightarrow> Inl e | Inr d \<Rightarrow> filtered_df d (Str ''All'') c)
     = filtered_df T m c
   \<and> (view P m c s = (Inr (df, fdf), s') \<longrightarrow>
        clean P s = (Inr df, s) \<and> s' = s \<and> filtered_df df m c = Inr fdf)"
proof
  show "(case filtered_df T m (Str ''All'') of Inl e \<Rightarrow> Inl e | Inr d \<Rightarrow> filtered_df d (Str ''All'') c)
     = filtered_df T m c"
    by (simp add: filtered_df_def split: sum.splits)
next
  show "view P m c s = (Inr (df, fdf), s') \<longrightarrow>
        clean P s = (Inr df, s) \<and> s' = s \<and> filtered_df df m c = Inr fdf"
    by (auto simp: view_def clean_def split: prod.splits sum.splits option.splits if_splits)
qed

theorem filter_composes_witness:
  "\<exists>df fdf. view sample_pandas (Str ''2024-01'') (Str ''Food'') tied_state = (Inr (df, fdf), tied_state)
     \<and> clean sample_pandas tied_state = (Inr df, tied_state)
     \<and> filtered_df df (Str ''2024-01'') (Str ''Food'') = Inr fdf
     \<and> length (rows df) = 3 \<and> length (rows fdf) = 2"
proof -
  have n: "\<exists>d. normalize_df sample_pandas tied = Inr d \<and> length (rows d) = 3
      \<and> list_all (\<lambda>r. r ''Date'' = Ts 1704067200000000000) (rows d)
      \<and> map (\<lambda>r. r ''Category'') (rows d) = [Str ''Travel'', Str ''Food'', Str ''Food'']
      \<and> columns d = schema"
    by (simp add: normalize_df_def coerce_types_def dropna_def assign_def tied_def schema_def
        mk_row_def)
  then obtain d where d: "normalize_df sample_pandas tied = Inr d" "length (rows d) = 3"
    "list_all (\<lambda>r. r ''Date'' = Ts 1704067200000000000) (rows d)"
    "map (\<lambda>r. r ''Category'') (rows d) = [Str ''Travel'', Str ''Food'', Str ''Food'']"
    "columns d = schema"
    by (elim exE conjE) (rule that)
  let ?df = "assign d ''Month'' (\<lambda>r. month_of sample_pandas (r ''Date''))"
  have e: "\<not> empty_df tied"
    by (simp add: empty_df_def tied_def schema_def)
  have c: "clean sample_pandas tied_state = (Inr ?df, tied_state)"
    using d(1) e by (simp add: clean_def tied_state_def)
  obtain r1 r2 r3 where rs: "rows d = [r1, r2, r3]"
    using d(2) by (auto simp: length_Suc_conv numeral_3_eq_3)
  have o: "sorted_unique ?df ''Month'' = Inr ()" "sorted_unique ?df ''Category'' = Inr ()"
    using d(3,4,5)
    by (simp_all add: sorted_unique_def get_col_def assign_def schema_def rs)
  have "\<exists>fdf. filtered_df ?df (Str ''2024-01'') (Str ''Food'') = Inr fdf \<and> length (rows fdf) = 2"
    using d(3,4,5) unfolding rs
    by (simp add: filtered_df_def select_eq_def assign_def schema_def sample_pandas_def rs)
  then obtain fdf where f: "filtered_df ?df (Str ''2024-01'') (Str ''Food'') = Inr fdf"
    "length (rows fdf) = 2"
    by (elim exE conjE) (rule that)
  have v: "view sample_pandas (Str ''2024-01'') (Str ''Food'') tied_state = (Inr (?df, fdf), tied_state)"
    by (simp add: view_def c f o)
  have l: "length (rows ?df) = 3"
    using d(2) by (simp add: assign_def)
  from mp [OF conjunct2 [OF filter_composes] v]
  have "clean sample_pandas tied_state = (Inr ?df, tied_state)
      \<and> tied_state = tied_state \<and> filtered_df ?df (Str ''2024-01'') (Str ''Food'') = Inr fdf" .
  with v l f(2) show ?thesis by blast
qed

subsection \<open>Totals and the top category\<close>

lemma cell_value_le: "\<bar>cell_value c\<bar> \<le> magnitude c"
  by (cases c rule: magnitude.cases) (simp_all del: of_int_sint)

lemma magnitude_nonneg: "0 \<le> magnitude c"
  by (cases c rule: magnitude.cases) simp_all

lemma sum_magnitude_nonneg: "0 \<le> sum_list (map magnitude xs)"
  by (induction xs) (simp_all add: magnitude_nonneg)

lemma abs_sum_value: "\<bar>sum_list (map cell_value xs)\<bar> \<le> sum_list (map magnitude xs)"
proof (induction xs)
  case Nil
  then show ?case by simp
next
  case (Cons c xs)
  have "\<bar>cell_value c + sum_list (map cell_value xs)\<bar>
      \<le> \<bar>cell_value c\<bar> + \<bar>sum_list (map cell_value xs)\<bar>"
    by (rule abs_triangle_ineq)
  with Cons cell_value_le [of c] show ?case by simp
qed

lemma whole_value: "whole c \<Longrightarrow> cell_value c = real_of_int \<lfloor>cell_value c\<rfloor>"
  by (cases c rule: whole.cases) (simp_all del: of_int_sint)

lemma whole_not_null: "whole c \<Longrightarrow> c \<noteq> NaN"
  by auto

lemma float_of_whole:
  assumes "whole c" "magnitude c \<le> 2 ^ 53"
  shows "float_of c = Fin (cell_value c)"
proof (cases c rule: whole.cases)
  case (1 w)
  have "\<bar>real_of_int (sint w)\<bar> \<le> real_of_int (2 ^ 53)"
    using assms(2) 1 by (simp del: of_int_sint)
  then have "real_of_int \<bar>sint w\<bar> \<le> real_of_int (2 ^ 53)" by (simp del: of_int_sint)
  then have "\<bar>sint w\<bar> \<le> 2 ^ 53" by (simp only: of_int_le_iff)
  from round64_int [OF this] 1 show ?thesis by (simp del: of_int_sint)
next
  case (2 x)
  then show ?thesis by simp
qed (use assms in simp_all)

lemma float_sum_exact:
  assumes "list_all whole xs" "a = real_of_int \<lfloor>a\<rfloor>"
    and "\<bar>a\<bar> + sum_list (map magnitude xs) \<le> 2 ^ 53"
  shows "foldl f_add (Fin a) (map float_of (filter (\<lambda>c. c \<noteq> NaN) xs))
           = Fin (a + sum_list (map cell_value xs))"
  using assms
proof (induction xs arbitrary: a)
  case Nil
  then show ?case by simp
next
  case (Cons c xs)
  have w: "whole c" "list_all whole xs" using Cons.prems(1) by simp_all
  have m: "magnitude c \<le> 2 ^ 53"
    using Cons.prems(3) sum_magnitude_nonneg [of xs] by simp
  have f: "float_of c = Fin (cell_value c)" by (rule float_of_whole [OF w(1) m])
  let ?b = "a + cell_value c"
  have "a + cell_value c = real_of_int \<lfloor>a\<rfloor> + real_of_int \<lfloor>cell_value c\<rfloor>"
    using Cons.prems(2) whole_value [OF w(1)] by simp
  then have wb: "?b = real_of_int \<lfloor>?b\<rfloor>"
    by (metis floor_of_int of_int_add)
  have bb: "\<bar>?b\<bar> \<le> \<bar>a\<bar> + magnitude c"
    using cell_value_le [of c] by linarith
  then have b53: "\<bar>?b\<bar> \<le> 2 ^ 53"
    using Cons.prems(3) sum_magnitude_nonneg [of xs] by simp
  have r: "f_add (Fin a) (float_of c) = Fin ?b"
    unfolding f by (simp add: round64_whole [OF wb b53])
  have "\<bar>?b\<bar> + sum_list (map magnitude xs) \<le> 2 ^ 53"
    using bb Cons.prems(3) by simp
  from Cons.IH [OF w(2) wb this] r whole_not_null [OF w(1)]
  show ?case by (simp add: add.assoc)
qed

lemma sint_sum_exact:
  assumes "list_all is_int xs" "sum_list (map magnitude xs) \<le> 2 ^ 53"
  shows "real_of_int (sint (sum_list (map int_of xs))) = sum_list (map cell_value xs)"
  using assms
proof (induction xs)
  case Nil
  then show ?case by simp
next
  case (Cons c xs)
  then obtain w where c: "c = Int64 w" by (cases c) simp_all
  have i: "list_all is_int xs" using Cons.prems(1) by simp
  have m: "sum_list (map magnitude xs) \<le> 2 ^ 53"
    using Cons.prems(2) magnitude_nonneg [of c] by simp
  have ih: "real_of_int (sint (sum_list (map int_of xs))) = sum_list (map cell_value xs)"
    by (rule Cons.IH [OF i m])
  let ?t = "sint (sum_list (map int_of xs))"
  have "\<bar>sum_list (map cell_value xs)\<bar> \<le> sum_list (map magnitude xs)"
    by (rule abs_sum_value)
  then have "\<bar>real_of_int (sint w) + real_of_int ?t\<bar> \<le> 2 ^ 53"
    using Cons.prems(2) unfolding ih c by (simp del: of_int_sint)
  then have "real_of_int \<bar>sint w + ?t\<bar> \<le> real_of_int (2 ^ 53)" by (simp del: of_int_sint)
  then have b: "\<bar>sint w + ?t\<bar> \<le> 2 ^ 53" by (simp only: of_int_le_iff)
  have "sint (w + sum_list (map int_of xs)) = signed_take_bit 63 (sint w + ?t)"
    by (simp add: sint_word_add)
  also have "\<dots> = sint w + ?t"
    by (rule signed_take_bit_int_eq_self) (use b in simp_all)
  finally show ?case using ih by (simp add: c del: of_int_sint)
qed

lemma sum_as_exact:
  assumes "list_all whole xs" "sum_list (map magnitude xs) \<le> 2 ^ 53"
    and "int64 \<longrightarrow> list_all is_int xs"
  shows "finite_number (sum_as int64 xs) \<and> number_value (sum_as int64 xs) = sum_list (map cell_value xs)"
proof (cases int64)
  case True
  with assms(3) have "list_all is_int xs" by simp
  from sint_sum_exact [OF this assms(2)] True show ?thesis
    by (simp add: sum_as_def del: of_int_sint)
next
  case False
  have "foldl f_add (Fin 0) (map float_of (filter (\<lambda>c. c \<noteq> NaN) xs))
           = Fin (0 + sum_list (map cell_value xs))"
    by (rule float_sum_exact [OF assms(1)]) (use assms(2) in simp_all)
  with False show ?thesis by (simp add: sum_as_def)
qed

lemma sum_groups:
  assumes "finite K" "\<forall>r\<in>set rs. g r \<in> K"
  shows "(\<Sum>k\<in>K. sum_list (map f (filter (\<lambda>r. g r = k) rs))) = sum_list (map (f::'a \<Rightarrow> real) rs)"
  using assms(2)
proof (induction rs)
  case Nil
  then show ?case by simp
next
  case (Cons r rs)
  have "(\<Sum>k\<in>K. sum_list (map f (filter (\<lambda>r. g r = k) (r # rs))))
      = (\<Sum>k\<in>K. (if g r = k then f r else 0) + sum_list (map f (filter (\<lambda>r. g r = k) rs)))"
    by (rule sum.cong) auto
  also have "\<dots> = (\<Sum>k\<in>K. (if g r = k then f r else 0))
      + (\<Sum>k\<in>K. sum_list (map f (filter (\<lambda>r. g r = k) rs)))"
    by (simp add: sum.distrib)
  also have "(\<Sum>k\<in>K. (if g r = k then f r else 0)) = f r"
    using Cons.prems assms(1) by simp
  finally show ?case using Cons by simp
qed

lemma sum_filter_le:
  assumes "\<And>x. 0 \<le> (f x :: real)"
  shows "sum_list (map f (filter p xs)) \<le> sum_list (map f xs)"
  by (induction xs) (simp_all add: assms add_increasing)

lemma group_keys_set:
  "set (group_keys df by) = {k \<in> (\<lambda>r. r by) ` set (rows df). k \<noteq> NaN}"
  by (auto simp: group_keys_def)

lemma group_keys_distinct: "distinct (group_keys df by)"
  by (simp add: group_keys_def)

lemma group_total_exact:
  assumes "list_all (\<lambda>r. whole (r col)) (rows df)"
    and "sum_list (map (\<lambda>r. magnitude (r col)) (rows df)) \<le> 2 ^ 53"
  shows "finite_number (group_total df by col k)
     \<and> number_value (group_total df by col k)
         = sum_list (map (\<lambda>r. cell_value (r col)) (filter (\<lambda>r. r by = k) (rows df)))"
proof -
  let ?xs = "map (\<lambda>r. r col) (filter (\<lambda>r. r by = k) (rows df))"
  have w: "list_all whole ?xs"
    using assms(1) by (simp add: list_all_iff)
  have "sum_list (map magnitude ?xs)
      = sum_list (map (\<lambda>r. magnitude (r col)) (filter (\<lambda>r. r by = k) (rows df)))"
    by (simp add: o_def)
  also have "\<dots> \<le> sum_list (map (\<lambda>r. magnitude (r col)) (rows df))"
    by (rule sum_filter_le) (rule magnitude_nonneg)
  finally have m: "sum_list (map magnitude ?xs) \<le> 2 ^ 53" using assms(2) by simp
  have i: "list_all (\<lambda>r. is_int (r col)) (rows df) \<longrightarrow> list_all is_int ?xs"
    by (simp add: list_all_iff)
  from sum_as_exact [OF w m i] show ?thesis
    by (simp add: group_total_def o_def)
qed

lemma tied_summary:
  "category_summary tied = Inr [(Str ''Food'', F (Fin 100)), (Str ''Travel'', F (Fin 100))]"
  by (simp add: category_summary_def groupby_sum_def tied_def schema_def mk_row_def
      group_keys_def group_total_def sum_as_def)

lemma tied_total: "total_expense tied = Inr (F (Fin 200))"
  by (simp add: total_expense_def get_col_def series_sum_def tied_def schema_def mk_row_def
      sum_as_def)

lemma uncategorised_upload:
  "session_df (snd (upload_csv sample_pandas (Some uncategorised_file) prior_state)) = Some uncategorised"
  "fst (upload_csv sample_pandas (Some uncategorised_file) prior_state) = Inr ()"
proof -
  have f: "read_csv sample_pandas uncategorised_file =
     \<lparr>columns = [''Date'', ''Category'', ''Amount''],
      rows = [mk_row [(''Date'', Str ''2024-01-01''), (''Category'', NaN), (''Amount'', Int64 100)]]\<rparr>"
    by (simp add: sample_pandas_def sample_read_csv_def uncategorised_file_def
        sample_cell_def csv_column_def sample_int_def)
  have r: "required_cols \<subseteq> set (columns (read_csv sample_pandas uncategorised_file))"
    unfolding f by (simp add: required_cols_def)
  have "temp_df sample_pandas (read_csv sample_pandas uncategorised_file) = Inr uncategorised"
    unfolding temp_df_rows [OF r] unfolding f
    by (auto simp: uncategorised_def schema_def parses_def coerced_def with_description_def
        mk_row_def fun_eq_iff sample_pandas_def date_value_def amount_value_def)
  from upload_ok [OF r this]
  show "session_df (snd (upload_csv sample_pandas (Some uncategorised_file) prior_state)) = Some uncategorised"
    "fst (upload_csv sample_pandas (Some uncategorised_file) prior_state) = Inr ()"
    by simp_all
qed

lemma uncategorised_clean:
  assumes "session_df s = Some uncategorised"
  shows "view sample_pandas (Str ''All'') (Str ''All'') s = (Inr (uncategorised_view, uncategorised_view), s)"
proof -
  have n: "normalize_df sample_pandas uncategorised = Inr uncategorised"
    by (simp add: normalize_df_def coerce_types_def dropna_def assign_def uncategorised_def
        schema_def)
       (auto simp: mk_row_def fun_eq_iff)
  have e: "\<not> empty_df uncategorised"
    by (simp add: empty_df_def uncategorised_def schema_def)
  have a: "assign uncategorised ''Month'' (\<lambda>r. month_of sample_pandas (r ''Date'')) = uncategorised_view"
    by (simp add: assign_def uncategorised_def uncategorised_view_def schema_def)
       (auto simp: mk_row_def fun_eq_iff sample_pandas_def)
  have o: "sorted_unique uncategorised_view ''Month'' = Inr ()"
    "sorted_unique uncategorised_view ''Category'' = Inr ()"
    by (simp_all add: sorted_unique_def get_col_def uncategorised_view_def schema_def mk_row_def)
  show ?thesis
    using assms by (simp add: view_def clean_def n e a o filtered_df_def)
qed

text \<open>
  C6, as stated, fails. Grouping by \<open>Category\<close> leaves out the rows whose category is null,
  and the total does not. Uploading a file whose only row has an empty category gives a
  ledger, and from it a filtered frame of one row, whose total is 100 while the category
  summary that line 151 computes has no entry.
\<close>

theorem uncategorised_total:
  "view sample_pandas (Str ''All'') (Str ''All'')
      (snd (upload_csv sample_pandas (Some uncategorised_file) prior_state))
     = (Inr (uncategorised_view, uncategorised_view),
        snd (upload_csv sample_pandas (Some uncategorised_file) prior_state))
   \<and> rows uncategorised_view \<noteq> []
   \<and> total_expense uncategorised_view = Inr (I 100)
   \<and> category_summary uncategorised_view = Inr []"
proof -
  have "rows uncategorised_view \<noteq> [] \<and> total_expense uncategorised_view = Inr (I 100)
      \<and> category_summary uncategorised_view = Inr []"
    by (simp add: uncategorised_view_def total_expense_def get_col_def series_sum_def schema_def
      mk_row_def category_summary_def groupby_sum_def group_keys_def sum_as_def)
  with uncategorised_clean [OF uncategorised_upload(1)] show ?thesis by simp
qed

text \<open>
  C6, amended. For every table in which each record has a category (none is null), whose
  amounts are whole numbers with absolute values adding up to at most \<open>2 ^ 53\<close>, and whose
  category summary is defined, the total and the sums of the summary are finite and the
  total is the sum of the values of the summary. The total of a table without rows is 0.
\<close>

theorem total_is_sum_of_categories:
  "(list_all (\<lambda>r. r ''Category'' \<noteq> NaN) (rows T)
      \<and> list_all (\<lambda>r. whole (r ''Amount'')) (rows T)
      \<and> sum_list (map (\<lambda>r. magnitude (r ''Amount'')) (rows T)) \<le> 2 ^ 53
      \<and> category_summary T = Inr kvs
      \<longrightarrow> (\<exists>t. total_expense T = Inr t \<and> finite_number t
             \<and> list_all (\<lambda>kv. finite_number (snd kv)) kvs
             \<and> number_value t = sum_list (map (\<lambda>kv. number_value (snd kv)) kvs)))
   \<and> (rows T = [] \<and> ''Amount'' \<in> set (columns T)
      \<longrightarrow> (\<exists>t. total_expense T = Inr t \<and> finite_number t \<and> number_value t = 0))"
proof (intro conjI impI)
  assume a: "list_all (\<lambda>r. r ''Category'' \<noteq> NaN) (rows T)
      \<and> list_all (\<lambda>r. whole (r ''Amount'')) (rows T)
      \<and> sum_list (map (\<lambda>r. magnitude (r ''Amount'')) (rows T)) \<le> 2 ^ 53
      \<and> category_summary T = Inr kvs"
  then have w: "list_all (\<lambda>r. whole (r ''Amount'')) (rows T)"
    and m: "sum_list (map (\<lambda>r. magnitude (r ''Amount'')) (rows T)) \<le> 2 ^ 53"
    and n: "list_all (\<lambda>r. r ''Category'' \<noteq> NaN) (rows T)"
    by simp_all
  from a have c: "''Amount'' \<in> set (columns T)"
    "list_all (\<lambda>r. numeric (r ''Amount'')) (rows T)"
    and k: "kvs = map (\<lambda>k. (k, group_total T ''Category'' ''Amount'' k)) (group_keys T ''Category'')"
    by (auto simp: category_summary_def groupby_sum_def split: if_splits)
  let ?xs = "map (\<lambda>r. r ''Amount'') (rows T)"
  let ?t = "sum_as (list_all is_int ?xs) ?xs"
  have t: "total_expense T = Inr ?t"
    using c by (simp add: total_expense_def get_col_def series_sum_def list_all_iff)
  have "finite_number ?t \<and> number_value ?t = sum_list (map cell_value ?xs)"
    by (rule sum_as_exact) (use w m in \<open>simp_all add: list_all_iff o_def\<close>)
  then have f: "finite_number ?t"
    and v: "number_value ?t = sum_list (map (\<lambda>r. cell_value (r ''Amount'')) (rows T))"
    by (simp_all add: o_def)
  have g: "list_all (\<lambda>kv. finite_number (snd kv)) kvs"
    unfolding k using group_total_exact [OF w m] by (simp add: list_all_iff)
  have "sum_list (map (\<lambda>kv. number_value (snd kv)) kvs)
      = sum_list (map (\<lambda>k. number_value (group_total T ''Category'' ''Amount'' k))
          (group_keys T ''Category''))"
    unfolding k by (simp add: o_def)
  also have "\<dots> = (\<Sum>k\<in>set (group_keys T ''Category'').
      number_value (group_total T ''Category'' ''Amount'' k))"
    by (simp add: sum_list_distinct_conv_sum_set group_keys_distinct)
  also have "\<dots> = (\<Sum>k\<in>set (group_keys T ''Category'').
      sum_list (map (\<lambda>r. cell_value (r ''Amount''))
        (filter (\<lambda>r. r ''Category'' = k) (rows T))))"
    using group_total_exact [OF w m] by simp
  also have "\<dots> = sum_list (map (\<lambda>r. cell_value (r ''Amount'')) (rows T))"
    by (rule sum_groups) (use n in \<open>auto simp: group_keys_set list_all_iff\<close>)
  finally have "number_value ?t = sum_list (map (\<lambda>kv. number_value (snd kv)) kvs)"
    using v by simp
  with t f g show "\<exists>t. total_expense T = Inr t \<and> finite_number t
             \<and> list_all (\<lambda>kv. finite_number (snd kv)) kvs
             \<and> number_value t = sum_list (map (\<lambda>kv. number_value (snd kv)) kvs)"
    by blast
next
  assume "rows T = [] \<and> ''Amount'' \<in> set (columns T)"
  then have "total_expense T = Inr (I 0)"
    by (simp add: total_expense_def get_col_def series_sum_def sum_as_def)
  then show "\<exists>t. total_expense T = Inr t \<and> finite_number t \<and> number_value t = 0"
    by simp
qed

theorem total_is_sum_of_categories_witness:
  "list_all (\<lambda>r. r ''Category'' \<noteq> NaN) (rows tied)
   \<and> list_all (\<lambda>r. whole (r ''Amount'')) (rows tied)
   \<and> sum_list (map (\<lambda>r. magnitude (r ''Amount'')) (rows tied)) \<le> 2 ^ 53
   \<and> category_summary tied = Inr [(Str ''Food'', F (Fin 100)), (Str ''Travel'', F (Fin 100))]
   \<and> total_expense tied = Inr (F (Fin 200))
   \<and> (\<exists>t. total_expense tied = Inr t \<and> finite_number t \<and> number_value t = 200)
   \<and> rows \<lparr>columns = schema, rows = []\<rparr> = []
   \<and> ''Amount'' \<in> set (columns \<lparr>columns = schema, rows = []\<rparr>)
   \<and> (\<exists>t. total_expense \<lparr>columns = schema, rows = []\<rparr> = Inr t \<and> finite_number t
         \<and> number_value t = 0)"
proof -
  have c: "list_all (\<lambda>r. r ''Category'' \<noteq> NaN) (rows tied)"
    by (simp add: tied_def mk_row_def)
  have w: "list_all (\<lambda>r. whole (r ''Amount'')) (rows tied)"
    by (simp add: tied_def mk_row_def)
  have m: "sum_list (map (\<lambda>r. magnitude (r ''Amount'')) (rows tied)) \<le> 2 ^ 53"
    by (simp add: tied_def mk_row_def)
  from mp [OF conjunct1 [OF total_is_sum_of_categories],
      OF conjI [OF c conjI [OF w conjI [OF m tied_summary]]]]
  have t: "\<exists>t. total_expense tied = Inr t \<and> finite_number t \<and> number_value t = 200"
    by simp
  have e: "rows \<lparr>columns = schema, rows = []\<rparr> = []
      \<and> ''Amount'' \<in> set (columns \<lparr>columns = schema, rows = []\<rparr>)"
    by (simp add: schema_def)
  have z: "\<exists>t. total_expense \<lparr>columns = schema, rows = []\<rparr> = Inr t \<and> finite_number t
         \<and> number_value t = 0"
    by (rule mp [OF conjunct2 [OF total_is_sum_of_categories] e])
  show ?thesis
    by (intro conjI) (rule c w m tied_summary tied_total t z conjunct1 [OF e] conjunct2 [OF e])+
qed

text \<open>
  Without the bound on the amounts the equality is lost to rounding even where every
  record has a category: of 0.1 (Food), 0.1 (Travel) and 0.4 (Food) the total is
  0.6000000000000001, while the sums by category are 0.5 and 0.1, which add up to 0.6.
\<close>

lemma tenth: "round64 (1 / 10) = Fin (7205759403792794 / 2 ^ 56)"
  using round64_at [of "-4" "1 / 10" 7205759403792794] by (simp add: pow2_def)

lemma four_tenths: "round64 (4 / 10) = Fin (7205759403792794 / 2 ^ 54)"
  using round64_at [of "-2" "4 / 10" 7205759403792794] by (simp add: pow2_def)

lemma tenth_again: "round64 (7205759403792794 / 2 ^ 56) = Fin (7205759403792794 / 2 ^ 56)"
  using round64_at [of "-4" "7205759403792794 / 2 ^ 56" 7205759403792794] by (simp add: pow2_def)

lemma two_tenths:
  "round64 (7205759403792794 / 2 ^ 56 + 7205759403792794 / 2 ^ 56) = Fin (7205759403792794 / 2 ^ 55)"
  using round64_at [of "-3" "7205759403792794 / 2 ^ 56 + 7205759403792794 / 2 ^ 56" 7205759403792794]
  by (simp add: pow2_def)

lemma six_tenths_up:
  "round64 (7205759403792794 / 2 ^ 55 + 7205759403792794 / 2 ^ 54) = Fin (5404319552844596 / 2 ^ 53)"
  using round64_tie [of "-1" "7205759403792794 / 2 ^ 55 + 7205759403792794 / 2 ^ 54" 5404319552844595]
  by (simp add: pow2_def)

lemma half: "round64 (7205759403792794 / 2 ^ 56 + 7205759403792794 / 2 ^ 54) = Fin (1 / 2)"
  using round64_at [of "-1" "7205759403792794 / 2 ^ 56 + 7205759403792794 / 2 ^ 54" 4503599627370496]
  by (simp add: pow2_def)

lemma six_tenths: "round64 (1 / 2 + 7205759403792794 / 2 ^ 56) = Fin (5404319552844595 / 2 ^ 53)"
  using round64_at [of "-1" "1 / 2 + 7205759403792794 / 2 ^ 56" 5404319552844595]
  by (simp add: pow2_def)

lemma rounding_separates_sums:
  "list_all (\<lambda>r. r ''Category'' \<noteq> NaN) (rows dimes)
   \<and> total_expense dimes = Inr (F (Fin (5404319552844596 / 2 ^ 53)))
   \<and> category_summary dimes
       = Inr [(Str ''Food'', F (Fin (1 / 2))), (Str ''Travel'', F (Fin (7205759403792794 / 2 ^ 56)))]
   \<and> f_add (Fin (1 / 2)) (Fin (7205759403792794 / 2 ^ 56)) = Fin (5404319552844595 / 2 ^ 53)"
proof -
  have c: "list_all (\<lambda>r. r ''Category'' \<noteq> NaN) (rows dimes)"
    by (simp add: dimes_def mk_row_def)
  have t: "total_expense dimes = Inr (F (Fin (5404319552844596 / 2 ^ 53)))"
    using tenth four_tenths tenth_again two_tenths six_tenths_up
    by (simp add: total_expense_def get_col_def series_sum_def dimes_def schema_def mk_row_def
        sum_as_def)
  have s: "category_summary dimes
       = Inr [(Str ''Food'', F (Fin (1 / 2))), (Str ''Travel'', F (Fin (7205759403792794 / 2 ^ 56)))]"
    using tenth four_tenths tenth_again half
    by (simp add: category_summary_def groupby_sum_def dimes_def schema_def mk_row_def
        group_keys_def group_total_def sum_as_def)
  have v: "f_add (Fin (1 / 2)) (Fin (7205759403792794 / 2 ^ 56)) = Fin (5404319552844595 / 2 ^ 53)"
    using six_tenths by simp
  from c t s v show ?thesis by simp
qed

text \<open>
  C7 fails in the code. Line 152 guards \<open>idxmax\<close> against the empty frame only. The
  filtered frame that the upload of a file whose only row has an empty category leads to
  is not empty, yet its category summary has no entry: \<open>idxmax\<close> raises \<open>ValueError\<close>,
  and the run ends at line 151 without a top category.
\<close>

theorem uncategorised_top:
  "view sample_pandas (Str ''All'') (Str ''All'')
      (snd (upload_csv sample_pandas (Some uncategorised_file) prior_state))
     = (Inr (uncategorised_view, uncategorised_view),
        snd (upload_csv sample_pandas (Some uncategorised_file) prior_state))
   \<and> \<not> empty_df uncategorised_view
   \<and> top_category sample_pandas uncategorised_view
       = Inl (ValueError ''attempt to get argmax of an empty sequence'')
   \<and> fst (run sample_pandas None (Some uncategorised_file) (Fin 0) (Str ''All'') (Str ''All'')
             prior_state)
       = Inl (ValueError ''attempt to get argmax of an empty sequence'')"
proof -
  let ?s = "snd (upload_csv sample_pandas (Some uncategorised_file) prior_state)"
  have v: "view sample_pandas (Str ''All'') (Str ''All'') ?s
      = (Inr (uncategorised_view, uncategorised_view), ?s)"
    by (rule uncategorised_clean [OF uncategorised_upload(1)])
  have e: "\<not> empty_df uncategorised_view"
    by (simp add: uncategorised_view_def empty_df_def schema_def)
  have t: "top_category sample_pandas uncategorised_view
       = Inl (ValueError ''attempt to get argmax of an empty sequence'')"
    by (simp add: uncategorised_view_def top_category_def empty_df_def schema_def
      mk_row_def groupby_sum_def group_keys_def idxmax_def)
  have s: "total_expense uncategorised_view = Inr (I 100)"
    by (simp add: uncategorised_view_def total_expense_def get_col_def series_sum_def schema_def
      mk_row_def sum_as_def)
  have i: "init_session sample_pandas prior_state = (Inr prior_ledger, prior_state)"
    by (simp add: init_session_def prior_state_def)
  obtain s3 where u: "upload_csv sample_pandas (Some uncategorised_file) prior_state = (Inr (), s3)"
    using uncategorised_upload(2) by (metis prod.collapse)
  then have "session_df s3 = Some uncategorised"
    using uncategorised_upload(1) by simp
  then have v3: "view sample_pandas (Str ''All'') (Str ''All'') s3
      = (Inr (uncategorised_view, uncategorised_view), s3)"
    by (rule uncategorised_clean)
  have r: "fst (run sample_pandas None (Some uncategorised_file) (Fin 0) (Str ''All'') (Str ''All'')
             prior_state)
       = Inl (ValueError ''attempt to get argmax of an empty sequence'')"
    by (simp add: run_def i u v3 s t)
  from v e t r show ?thesis by simp
qed

end
